theory Spec2Isabelle
  imports Main
begin

section \<open>The chess rules engine of \<^verbatim>\<open>src/types/chess.ts\<close>\<close>

text \<open>
  A shallow embedding of the engine: the data model of the first part of the file and the
  functions of its second part (\<^verbatim>\<open>utils/chessLogic\<close>), each under the name it
  has in the source. Coordinates are the integers JavaScript computes with (a candidate
  square such as \<open>from.row + direction\<close> may lie off the board before
  \<open>isValidPosition\<close> rejects it).
\<close>

subsection \<open>Data model\<close>

datatype PieceType = Pawn | Rook | Knight | Bishop | Queen | King
datatype PieceColor = White | Black
datatype GameStatus = Active | Check | Checkmate | Stalemate | Draw

record ChessPiece =
  type :: PieceType
  color :: PieceColor

record Position =
  row :: int
  col :: int

text \<open>
  The optional fields of \<open>Move\<close> are options; \<open>from\<close> and \<open>to\<close> are Isar keywords
  and \<open>piece\<close> and \<open>notation\<close> are used as variable names below, so the fields carry the
  prefix \<open>move_\<close>.
\<close>

record Move =
  move_from :: Position
  move_to :: Position
  move_piece :: ChessPiece
  move_capturedPiece :: "ChessPiece option"
  move_notation :: string
  move_timestamp :: int
  move_isCheck :: "bool option"
  move_isCheckmate :: "bool option"
  move_isCastling :: "bool option"
  move_isEnPassant :: "bool option"
  move_promotionPiece :: "PieceType option"

record CastlingRights =
  whiteKingSide :: bool
  whiteQueenSide :: bool
  blackKingSide :: bool
  blackQueenSide :: bool

text \<open>
  The two ledgers of captured pieces are JavaScript arrays that \<open>makeMove\<close> extends in
  place with \<open>push\<close>, so a state holds them by reference: an address into a store of
  arrays. Everything else in a state is rebuilt by \<open>makeMove\<close> before it is written
  (\<open>board.map(row => [...row])\<close>, \<open>[...gameState.moveHistory, move]\<close>, the spread of the
  flat \<open>castlingRights\<close> object; pieces and positions are never assigned to) and is
  modelled as a value.
\<close>

type_synonym Heap = "ChessPiece list list"

record CapturedPieces =
  white :: nat
  black :: nat

type_synonym Board = "ChessPiece option list list"

record GameState =
  board :: Board
  currentPlayer :: PieceColor
  status :: GameStatus
  moveHistory :: "Move list"
  capturedPieces :: CapturedPieces
  castlingRights :: CastlingRights
  enPassantTarget :: "Position option"
  halfMoveClock :: int
  fullMoveNumber :: int

text \<open>
  What JavaScript does when the engine indexes the board without a bounds check:
  \<open>board[r]\<close> is \<open>undefined\<close> for a row index outside the array, and reading or writing
  \<open>board[r][c]\<close> then throws a \<open>TypeError\<close>. A write \<open>board[r][c] = v\<close> with \<open>r\<close> a row
  and \<open>c\<close> outside it throws nothing: the row array grows or gets a property. The model
  does not follow the engine off the grid and stops there with \<open>OffGridWrite\<close>.
\<close>

datatype error = TypeError | OffGridWrite

fun bind :: "error + 'a \<Rightarrow> ('a \<Rightarrow> error + 'b) \<Rightarrow> error + 'b" where
  "bind (Inl e) f = Inl e"
| "bind (Inr x) f = f x"

subsection \<open>Board and position utilities\<close>

definition createInitialBoard :: Board where
  "createInitialBoard =
     (let pieceOrder = [Rook, Knight, Bishop, Queen, King, Bishop, Knight, Rook]
      in [map (\<lambda>t. Some \<lparr>type = t, color = Black\<rparr>) pieceOrder,
          replicate 8 (Some \<lparr>type = Pawn, color = Black\<rparr>),
          replicate 8 None, replicate 8 None, replicate 8 None, replicate 8 None,
          replicate 8 (Some \<lparr>type = Pawn, color = White\<rparr>),
          map (\<lambda>t. Some \<lparr>type = t, color = White\<rparr>) pieceOrder])"

text \<open>\<open>createInitialGameState\<close> allocates the two empty ledgers at fresh addresses.\<close>

definition createInitialGameState :: "Heap \<Rightarrow> GameState \<times> Heap" where
  "createInitialGameState h =
     (\<lparr>board = createInitialBoard,
       currentPlayer = White,
       status = Active,
       moveHistory = [],
       capturedPieces = \<lparr>white = length h, black = length h + 1\<rparr>,
       castlingRights = \<lparr>whiteKingSide = True, whiteQueenSide = True,
                         blackKingSide = True, blackQueenSide = True\<rparr>,
       enPassantTarget = None,
       halfMoveClock = 0,
       fullMoveNumber = 1\<rparr>,
      h @ [[], []])"

definition isValidPosition :: "Position \<Rightarrow> bool" where
  "isValidPosition pos = (row pos \<ge> 0 \<and> row pos < 8 \<and> col pos \<ge> 0 \<and> col pos < 8)"

definition positionsEqual :: "Position \<Rightarrow> Position \<Rightarrow> bool" where
  "positionsEqual pos1 pos2 = (row pos1 = row pos2 \<and> col pos1 = col pos2)"

text \<open>
  \<open>cellAt\<close> is the read \<open>board[r][c]\<close> where the source has checked the square with
  \<open>isValidPosition\<close>, or takes \<open>r\<close> and \<open>c\<close> from its loops over \<open>0..7\<close> or from
  constants: on an 8x8 board the cell exists. (On a board of another shape the source
  would read \<open>undefined\<close> or throw; the theorems that exclude exceptions assume the 8x8
  shape.) \<open>getCell\<close> is the read at a square the source has not checked: \<open>from\<close> in
  \<open>getPossibleMoves\<close>, \<open>makeMove\<close> and \<open>wouldBeInCheck\<close>, \<open>to\<close> in \<open>makeMove\<close>. A column
  outside the row reads \<open>undefined\<close>, which is \<open>None\<close> here: \<open>getPossibleMoves\<close> and
  \<open>makeMove\<close> test the piece on \<open>from\<close> with \<open>!piece\<close>, as they do \<open>null\<close>, and where
  \<open>makeMove\<close> reads \<open>to\<close> it writes the same square next, where the model stops.
  \<open>setCell\<close> is the assignment \<open>board[r][c] = v\<close>.
\<close>

definition cellAt :: "Board \<Rightarrow> int \<Rightarrow> int \<Rightarrow> ChessPiece option" where
  "cellAt b r c =
     (if 0 \<le> r \<and> nat r < length b \<and> 0 \<le> c \<and> nat c < length (b ! nat r)
      then b ! nat r ! nat c else None)"

definition cellP :: "Board \<Rightarrow> Position \<Rightarrow> ChessPiece option" where
  "cellP b pos = cellAt b (row pos) (col pos)"

definition getCell :: "Board \<Rightarrow> Position \<Rightarrow> error + ChessPiece option" where
  "getCell b pos =
     (if row pos < 0 \<or> nat (row pos) \<ge> length b then Inl TypeError
      else Inr (cellAt b (row pos) (col pos)))"

definition setCell :: "Board \<Rightarrow> int \<Rightarrow> int \<Rightarrow> ChessPiece option \<Rightarrow> error + Board" where
  "setCell b r c v =
     (if r < 0 \<or> nat r \<ge> length b then Inl TypeError
      else if c < 0 \<or> nat c \<ge> length (b ! nat r) then Inl OffGridWrite
      else Inr (b[nat r := (b ! nat r)[nat c := v]]))"

subsection \<open>Pseudo-legal moves\<close>

definition getPawnMoves :: "Board \<Rightarrow> Position \<Rightarrow> PieceColor \<Rightarrow> Position option \<Rightarrow> Position list" where
  "getPawnMoves b frm c ep =
     (let direction = (if c = White then - 1 else 1);
          startRow = (if c = White then 6 else 1);
          oneForward = \<lparr>row = row frm + direction, col = col frm\<rparr>;
          twoForward = \<lparr>row = row frm + 2 * direction, col = col frm\<rparr>;
          captureLeft = \<lparr>row = row frm + direction, col = col frm - 1\<rparr>;
          captureRight = \<lparr>row = row frm + direction, col = col frm + 1\<rparr>
      in (if isValidPosition oneForward \<and> cellP b oneForward = None
          then oneForward #
            (if row frm = startRow \<and> isValidPosition twoForward \<and> cellP b twoForward = None
             then [twoForward] else [])
          else [])
       @ (if isValidPosition captureLeft \<and>
             (case cellP b captureLeft of None \<Rightarrow> False | Some p \<Rightarrow> color p \<noteq> c)
          then [captureLeft] else [])
       @ (if isValidPosition captureRight \<and>
             (case cellP b captureRight of None \<Rightarrow> False | Some p \<Rightarrow> color p \<noteq> c)
          then [captureRight] else [])
       @ (case ep of
            None \<Rightarrow> []
          | Some t \<Rightarrow>
              if positionsEqual captureLeft t \<or> positionsEqual captureRight t then [t] else []))"

fun slide :: "Board \<Rightarrow> Position \<Rightarrow> PieceColor \<Rightarrow> int \<Rightarrow> int \<Rightarrow> int list \<Rightarrow> Position list" where
  "slide b frm c rowDir colDir [] = []"
| "slide b frm c rowDir colDir (i # rest) =
     (let to = \<lparr>row = row frm + i * rowDir, col = col frm + i * colDir\<rparr>
      in if \<not> isValidPosition to then []
         else (case cellP b to of
                 None \<Rightarrow> to # slide b frm c rowDir colDir rest
               | Some p \<Rightarrow> (if color p \<noteq> c then [to] else [])))"

definition getRookMoves :: "Board \<Rightarrow> Position \<Rightarrow> PieceColor \<Rightarrow> Position list" where
  "getRookMoves b frm c =
     concat (map (\<lambda>(rowDir, colDir). slide b frm c rowDir colDir [1, 2, 3, 4, 5, 6, 7])
       [(- 1, 0), (1, 0), (0, - 1), (0, 1)])"

definition getBishopMoves :: "Board \<Rightarrow> Position \<Rightarrow> PieceColor \<Rightarrow> Position list" where
  "getBishopMoves b frm c =
     concat (map (\<lambda>(rowDir, colDir). slide b frm c rowDir colDir [1, 2, 3, 4, 5, 6, 7])
       [(- 1, - 1), (- 1, 1), (1, - 1), (1, 1)])"

definition getQueenMoves :: "Board \<Rightarrow> Position \<Rightarrow> PieceColor \<Rightarrow> Position list" where
  "getQueenMoves b frm c = getRookMoves b frm c @ getBishopMoves b frm c"

definition offsetMoves :: "Board \<Rightarrow> Position \<Rightarrow> PieceColor \<Rightarrow> (int \<times> int) list \<Rightarrow> Position list" where
  "offsetMoves b frm c offsets =
     concat (map (\<lambda>(rowOffset, colOffset).
        (let to = \<lparr>row = row frm + rowOffset, col = col frm + colOffset\<rparr>
         in if isValidPosition to \<and>
               (case cellP b to of None \<Rightarrow> True | Some p \<Rightarrow> color p \<noteq> c)
            then [to] else [])) offsets)"

definition getKnightMoves :: "Board \<Rightarrow> Position \<Rightarrow> PieceColor \<Rightarrow> Position list" where
  "getKnightMoves b frm c =
     offsetMoves b frm c
       [(- 2, - 1), (- 2, 1), (- 1, - 2), (- 1, 2), (1, - 2), (1, 2), (2, - 1), (2, 1)]"

definition kingSteps :: "Board \<Rightarrow> Position \<Rightarrow> PieceColor \<Rightarrow> Position list" where
  "kingSteps b frm c =
     offsetMoves b frm c
       [(- 1, - 1), (- 1, 0), (- 1, 1), (0, - 1), (0, 1), (1, - 1), (1, 0), (1, 1)]"

definition indices :: "int list" where
  "indices = [0, 1, 2, 3, 4, 5, 6, 7]"

definition squares :: "(int \<times> int) list" where
  "squares = concat (map (\<lambda>r. map (\<lambda>c. (r, c)) indices) indices)"

definition noCastling :: CastlingRights where
  "noCastling = \<lparr>whiteKingSide = False, whiteQueenSide = False,
                  blackKingSide = False, blackQueenSide = False\<rparr>"

definition anyRight :: "CastlingRights \<Rightarrow> bool" where
  "anyRight cr = (whiteKingSide cr \<or> whiteQueenSide cr \<or> blackKingSide cr \<or> blackQueenSide cr)"

function getKingMoves :: "Board \<Rightarrow> Position \<Rightarrow> PieceColor \<Rightarrow> CastlingRights \<Rightarrow> Position list"
  and isSquareAttacked :: "Board \<Rightarrow> Position \<Rightarrow> PieceColor \<Rightarrow> bool"
  and getPossibleMovesWithoutCheckValidation :: "Board \<Rightarrow> Position \<Rightarrow> Position list"
where
  "getKingMoves b frm c rights =
     kingSteps b frm c @
     (if c = White \<and> row frm = 7 \<and> col frm = 4 then
        (if whiteKingSide rights then
           (if cellAt b 7 5 = None \<and> cellAt b 7 6 = None \<and>
               \<not> isSquareAttacked b \<lparr>row = 7, col = 4\<rparr> Black \<and>
               \<not> isSquareAttacked b \<lparr>row = 7, col = 5\<rparr> Black \<and>
               \<not> isSquareAttacked b \<lparr>row = 7, col = 6\<rparr> Black
            then [\<lparr>row = 7, col = 6\<rparr>] else [])
         else []) @
        (if whiteQueenSide rights then
           (if cellAt b 7 1 = None \<and> cellAt b 7 2 = None \<and> cellAt b 7 3 = None \<and>
               \<not> isSquareAttacked b \<lparr>row = 7, col = 4\<rparr> Black \<and>
               \<not> isSquareAttacked b \<lparr>row = 7, col = 3\<rparr> Black \<and>
               \<not> isSquareAttacked b \<lparr>row = 7, col = 2\<rparr> Black
            then [\<lparr>row = 7, col = 2\<rparr>] else [])
         else [])
      else if c = Black \<and> row frm = 0 \<and> col frm = 4 then
        (if blackKingSide rights then
           (if cellAt b 0 5 = None \<and> cellAt b 0 6 = None \<and>
               \<not> isSquareAttacked b \<lparr>row = 0, col = 4\<rparr> White \<and>
               \<not> isSquareAttacked b \<lparr>row = 0, col = 5\<rparr> White \<and>
               \<not> isSquareAttacked b \<lparr>row = 0, col = 6\<rparr> White
            then [\<lparr>row = 0, col = 6\<rparr>] else [])
         else []) @
        (if blackQueenSide rights then
           (if cellAt b 0 1 = None \<and> cellAt b 0 2 = None \<and> cellAt b 0 3 = None \<and>
               \<not> isSquareAttacked b \<lparr>row = 0, col = 4\<rparr> White \<and>
               \<not> isSquareAttacked b \<lparr>row = 0, col = 3\<rparr> White \<and>
               \<not> isSquareAttacked b \<lparr>row = 0, col = 2\<rparr> White
            then [\<lparr>row = 0, col = 2\<rparr>] else [])
         else [])
      else [])"
| "isSquareAttacked b square byColor =
     list_ex (\<lambda>(r, c).
        (case cellAt b r c of
           None \<Rightarrow> False
         | Some piece \<Rightarrow>
             color piece = byColor \<and>
             list_ex (\<lambda>move. positionsEqual move square)
               (getPossibleMovesWithoutCheckValidation b \<lparr>row = r, col = c\<rparr>)))
       squares"
| "getPossibleMovesWithoutCheckValidation b frm =
     (case cellP b frm of
        None \<Rightarrow> []
      | Some piece \<Rightarrow>
          (case type piece of
             Pawn \<Rightarrow> getPawnMoves b frm (color piece) None
           | Rook \<Rightarrow> getRookMoves b frm (color piece)
           | Knight \<Rightarrow> getKnightMoves b frm (color piece)
           | Bishop \<Rightarrow> getBishopMoves b frm (color piece)
           | Queen \<Rightarrow> getQueenMoves b frm (color piece)
           | King \<Rightarrow> filter (\<lambda>move. \<bar>col move - col frm\<bar> \<le> 1)
                      (getKingMoves b frm (color piece) noCastling)))"
  by pat_completeness auto
termination
  apply (relation "measure (\<lambda>x. case x of
            Inl (b, frm, c, cr) \<Rightarrow> (if anyRight cr then 3 else 0)
          | Inr (Inl (b, sq, c)) \<Rightarrow> 2
          | Inr (Inr (b, frm)) \<Rightarrow> (1::nat))")
  apply (auto simp: anyRight_def noCastling_def)
  done

declare getKingMoves.simps [simp del]
declare isSquareAttacked.simps [simp del]
declare getPossibleMovesWithoutCheckValidation.simps [simp del]


subsection \<open>Legal moves and check\<close>

fun findKingIn :: "Board \<Rightarrow> PieceColor \<Rightarrow> (int \<times> int) list \<Rightarrow> Position option" where
  "findKingIn b c [] = None"
| "findKingIn b c ((r, k) # rest) =
     (case cellAt b r k of
        Some piece \<Rightarrow>
          if type piece = King \<and> color piece = c then Some \<lparr>row = r, col = k\<rparr>
          else findKingIn b c rest
      | None \<Rightarrow> findKingIn b c rest)"

definition findKing :: "Board \<Rightarrow> PieceColor \<Rightarrow> Position option" where
  "findKing b c = findKingIn b c squares"

definition opponent :: "PieceColor \<Rightarrow> PieceColor" where
  "opponent c = (if c = White then Black else White)"

definition wouldBeInCheck :: "Board \<Rightarrow> Position \<Rightarrow> Position \<Rightarrow> PieceColor \<Rightarrow> error + bool" where
  "wouldBeInCheck b frm to c =
     bind (getCell b frm) (\<lambda>piece.
     bind (setCell b (row to) (col to) piece) (\<lambda>b1.
     bind (setCell b1 (row frm) (col frm) None) (\<lambda>newBoard.
       (case findKing newBoard c of
          None \<Rightarrow> Inr True
        | Some kingPos \<Rightarrow> Inr (isSquareAttacked newBoard kingPos (opponent c))))))"

definition isInCheck :: "Board \<Rightarrow> PieceColor \<Rightarrow> bool" where
  "isInCheck b c =
     (case findKing b c of
        None \<Rightarrow> False
      | Some kingPos \<Rightarrow> isSquareAttacked b kingPos (opponent c))"

text \<open>\<open>moves.filter(to => !wouldBeInCheck(...))\<close>: the first exception ends the filter.\<close>

fun filterE :: "('a \<Rightarrow> error + bool) \<Rightarrow> 'a list \<Rightarrow> error + 'a list" where
  "filterE keep [] = Inr []"
| "filterE keep (x # xs) =
     bind (keep x) (\<lambda>k. bind (filterE keep xs) (\<lambda>ys. Inr (if k then x # ys else ys)))"

text \<open>The \<open>switch\<close> of \<open>getPossibleMoves\<close>, which fills \<open>moves\<close>.\<close>

definition pseudoMoves :: "Board \<Rightarrow> Position \<Rightarrow> ChessPiece \<Rightarrow> GameState \<Rightarrow> Position list" where
  "pseudoMoves b frm piece gameState =
     (case type piece of
        Pawn \<Rightarrow> getPawnMoves b frm (color piece) (enPassantTarget gameState)
      | Rook \<Rightarrow> getRookMoves b frm (color piece)
      | Knight \<Rightarrow> getKnightMoves b frm (color piece)
      | Bishop \<Rightarrow> getBishopMoves b frm (color piece)
      | Queen \<Rightarrow> getQueenMoves b frm (color piece)
      | King \<Rightarrow> getKingMoves b frm (color piece) (castlingRights gameState))"

definition getPossibleMoves :: "Board \<Rightarrow> Position \<Rightarrow> GameState \<Rightarrow> error + Position list" where
  "getPossibleMoves b frm gameState =
     bind (getCell b frm) (\<lambda>cell.
       (case cell of
          None \<Rightarrow> Inr []
        | Some piece \<Rightarrow>
            filterE (\<lambda>to. bind (wouldBeInCheck b frm to (color piece)) (\<lambda>chk. Inr (\<not> chk)))
              (pseudoMoves b frm piece gameState)))"

text \<open>
  \<open>Date.now()\<close> is the parameter \<open>now\<close> of the functions that read the clock; the value
  only fills the \<open>timestamp\<close> of a move record.
\<close>

fun getAllPossibleMovesIn :: "int \<Rightarrow> Board \<Rightarrow> PieceColor \<Rightarrow> GameState \<Rightarrow> (int \<times> int) list \<Rightarrow> error + Move list" where
  "getAllPossibleMovesIn now b c gameState [] = Inr []"
| "getAllPossibleMovesIn now b c gameState ((r, k) # rest) =
     bind (case cellAt b r k of
             None \<Rightarrow> Inr []
           | Some piece \<Rightarrow>
               if color piece = c then
                 bind (getPossibleMoves b \<lparr>row = r, col = k\<rparr> gameState) (\<lambda>possibleMoves.
                   Inr (map (\<lambda>to.
                     \<lparr>move_from = \<lparr>row = r, col = k\<rparr>, move_to = to, move_piece = piece,
                      move_capturedPiece = cellP b to, move_notation = [],
                      move_timestamp = now, move_isCheck = None, move_isCheckmate = None,
                      move_isCastling = None, move_isEnPassant = None,
                      move_promotionPiece = None\<rparr>) possibleMoves))
               else Inr [])
       (\<lambda>moves. bind (getAllPossibleMovesIn now b c gameState rest) (\<lambda>more. Inr (moves @ more)))"

definition getAllPossibleMoves :: "int \<Rightarrow> Board \<Rightarrow> PieceColor \<Rightarrow> GameState \<Rightarrow> error + Move list" where
  "getAllPossibleMoves now b c gameState = getAllPossibleMovesIn now b c gameState squares"

definition getGameStatus :: "int \<Rightarrow> GameState \<Rightarrow> error + GameStatus" where
  "getGameStatus now gameState =
     (let inCheck = isInCheck (board gameState) (currentPlayer gameState)
      in bind (getAllPossibleMoves now (board gameState) (currentPlayer gameState) gameState)
           (\<lambda>possibleMoves.
              if length possibleMoves = 0 then Inr (if inCheck then Checkmate else Stalemate)
              else if inCheck then Inr Check
              else if halfMoveClock gameState \<ge> 50 then Inr Draw
              else
                (let pieces = filter (\<lambda>p. p \<noteq> None) (concat (board gameState))
                 in if length pieces \<le> 3 \<and>
                       list_all (\<lambda>p. case p of
                           None \<Rightarrow> False
                         | Some q \<Rightarrow> type q = King \<or> type q = Knight \<or> type q = Bishop) pieces
                    then Inr Draw else Inr Active)))"

subsection \<open>Notation and coordinates\<close>

text \<open>
  \<open>s[i]\<close> on a string is \<open>undefined\<close> (here \<open>None\<close>) outside the string. \<open>+\<close> on two such
  values concatenates, with an \<open>undefined\<close> operand printed as the text \<open>undefined\<close> when the
  other is a string; \<open>undefined + undefined\<close> is the number \<open>NaN\<close> (here \<open>None\<close>).
\<close>

definition files :: string where
  "files = ''abcdefgh''"

definition ranks :: string where
  "ranks = ''87654321''"

definition strAt :: "string \<Rightarrow> int \<Rightarrow> char option" where
  "strAt s i = (if 0 \<le> i \<and> nat i < length s then Some (s ! nat i) else None)"

fun jsString :: "char option \<Rightarrow> string" where
  "jsString None = ''undefined''"
| "jsString (Some ch) = [ch]"

fun jsPlus :: "char option \<Rightarrow> char option \<Rightarrow> string option" where
  "jsPlus None None = None"
| "jsPlus x y = Some (jsString x @ jsString y)"

fun indexOfFrom :: "string \<Rightarrow> char \<Rightarrow> int \<Rightarrow> int" where
  "indexOfFrom [] ch i = - 1"
| "indexOfFrom (x # xs) ch i = (if x = ch then i else indexOfFrom xs ch (i + 1))"

text \<open>\<open>s.indexOf(x)\<close> for \<open>x\<close> a character, or \<open>undefined\<close> (searched as the text \<open>undefined\<close>,
  which neither \<open>files\<close> nor \<open>ranks\<close> contains).\<close>

fun indexOf :: "string \<Rightarrow> char option \<Rightarrow> int" where
  "indexOf s None = - 1"
| "indexOf s (Some ch) = indexOfFrom s ch 0"

definition typeName :: "PieceType \<Rightarrow> string" where
  "typeName t =
     (case t of Pawn \<Rightarrow> ''pawn'' | Rook \<Rightarrow> ''rook'' | Knight \<Rightarrow> ''knight''
      | Bishop \<Rightarrow> ''bishop'' | Queen \<Rightarrow> ''queen'' | King \<Rightarrow> ''king'')"

definition toUpperCase :: "char \<Rightarrow> char" where
  "toUpperCase ch =
     (case map_of (zip ''abcdefghijklmnopqrstuvwxyz'' ''ABCDEFGHIJKLMNOPQRSTUVWXYZ'') ch of
        None \<Rightarrow> ch
      | Some u \<Rightarrow> u)"

definition createMoveNotation ::
  "ChessPiece \<Rightarrow> Position \<Rightarrow> Position \<Rightarrow> bool \<Rightarrow> bool \<Rightarrow> bool \<Rightarrow> string" where
  "createMoveNotation piece frm to isCapture isCastling isEnPassant =
     (if isCastling then (if col to > col frm then ''O-O'' else ''O-O-O'')
      else
        (let n1 = (if type piece \<noteq> Pawn then [toUpperCase (hd (typeName (type piece)))] else []);
             n2 = (if isCapture
                   then (if type piece = Pawn then n1 @ jsString (strAt files (col frm)) else n1) @ ''x''
                   else n1);
             n3 = n2 @ (case jsPlus (strAt files (col to)) (strAt ranks (row to)) of
                          None \<Rightarrow> ''NaN'' | Some s \<Rightarrow> s)
         in if isEnPassant then n3 @ '' e.p.'' else n3))"

definition positionToAlgebraic :: "Position \<Rightarrow> string option" where
  "positionToAlgebraic pos = jsPlus (strAt files (col pos)) (strAt ranks (row pos))"

definition algebraicToPosition :: "string \<Rightarrow> Position" where
  "algebraicToPosition algebraic =
     \<lparr>row = indexOf ranks (strAt algebraic 1), col = indexOf files (strAt algebraic 0)\<rparr>"

subsection \<open>Applying a move\<close>

text \<open>
  \<open>ledger[color].push(x)\<close> on the array at the address the state holds for \<open>color\<close>. An
  address names an array created earlier, so it lies inside the store; for any other
  number \<open>push\<close> leaves the store as it is.
\<close>

definition ledgerOf :: "CapturedPieces \<Rightarrow> PieceColor \<Rightarrow> nat" where
  "ledgerOf cp c = (if c = White then white cp else black cp)"

definition push :: "Heap \<Rightarrow> nat \<Rightarrow> ChessPiece \<Rightarrow> Heap" where
  "push h a x = h[a := h ! a @ [x]]"

text \<open>
  The parts of \<open>makeMove\<close> after the move is accepted, in the order of the source:
  the new board (en passant, castling, the move, promotion), the pushes on the ledgers,
  the castling rights, and the new state with its status.
\<close>

definition isEnPassantMove :: "GameState \<Rightarrow> ChessPiece \<Rightarrow> Position \<Rightarrow> bool" where
  "isEnPassantMove gameState piece to =
     (type piece = Pawn \<and>
      (case enPassantTarget gameState of None \<Rightarrow> False | Some t \<Rightarrow> positionsEqual to t))"

definition isCastlingMove :: "ChessPiece \<Rightarrow> Position \<Rightarrow> Position \<Rightarrow> bool" where
  "isCastlingMove piece frm to = (type piece = King \<and> \<bar>col to - col frm\<bar> = 2)"

definition newBoardOf :: "GameState \<Rightarrow> ChessPiece \<Rightarrow> Position \<Rightarrow> Position \<Rightarrow> error + Board" where
  "newBoardOf gameState piece frm to =
     bind (if isEnPassantMove gameState piece to
           then (let captureRow = (if currentPlayer gameState = White then row to + 1 else row to - 1)
                 in setCell (board gameState) captureRow (col to) None)
           else Inr (board gameState)) (\<lambda>b1.
     bind (if isCastlingMove piece frm to
           then (let isKingSide = col to > col frm;
                     rookFromCol = (if isKingSide then 7 else 0);
                     rookToCol = (if isKingSide then 5 else 3);
                     rookRow = row frm
                 in bind (getCell b1 \<lparr>row = rookRow, col = rookFromCol\<rparr>) (\<lambda>rook.
                    bind (setCell b1 rookRow rookToCol rook) (\<lambda>b.
                      setCell b rookRow rookFromCol None)))
           else Inr b1) (\<lambda>b2.
     bind (setCell b2 (row to) (col to) (Some piece)) (\<lambda>b3.
     bind (setCell b3 (row frm) (col frm) None) (\<lambda>b4.
       if type piece = Pawn \<and> (row to = 0 \<or> row to = 7)
       then setCell b4 (row to) (col to) (Some \<lparr>type = Queen, color = color piece\<rparr>)
       else Inr b4))))"

definition pushCaptured :: "GameState \<Rightarrow> ChessPiece option \<Rightarrow> bool \<Rightarrow> Heap \<Rightarrow> Heap" where
  "pushCaptured gameState capturedPiece isEnPassant h =
     (let h1 = (case capturedPiece of
                  None \<Rightarrow> h
                | Some cp \<Rightarrow> push h (ledgerOf (capturedPieces gameState) (color cp)) cp)
      in if isEnPassant
         then (let capturedPawn = \<lparr>type = Pawn, color = opponent (currentPlayer gameState)\<rparr>
               in push h1 (ledgerOf (capturedPieces gameState) (color capturedPawn)) capturedPawn)
         else h1)"

definition newCastlingRightsOf :: "GameState \<Rightarrow> ChessPiece \<Rightarrow> Position \<Rightarrow> CastlingRights" where
  "newCastlingRightsOf gameState piece frm =
     (let r0 = castlingRights gameState;
          r1 = (if type piece = King
                then (if currentPlayer gameState = White
                      then r0\<lparr>whiteKingSide := False, whiteQueenSide := False\<rparr>
                      else r0\<lparr>blackKingSide := False, blackQueenSide := False\<rparr>)
                else r0)
      in if type piece = Rook
         then (if currentPlayer gameState = White
               then (let r2 = (if col frm = 0 then r1\<lparr>whiteQueenSide := False\<rparr> else r1)
                     in if col frm = 7 then r2\<lparr>whiteKingSide := False\<rparr> else r2)
               else (let r2 = (if col frm = 0 then r1\<lparr>blackQueenSide := False\<rparr> else r1)
                     in if col frm = 7 then r2\<lparr>blackKingSide := False\<rparr> else r2))
         else r1)"

definition newStateOf ::
  "int \<Rightarrow> GameState \<Rightarrow> ChessPiece \<Rightarrow> Position \<Rightarrow> Position \<Rightarrow> ChessPiece option \<Rightarrow> Board \<Rightarrow> GameState" where
  "newStateOf now gameState piece frm to capturedPiece newBoard =
     (let isEnPassant = isEnPassantMove gameState piece to;
          isCastling = isCastlingMove piece frm to;
          newEnPassantTarget =
            (if type piece = Pawn \<and> \<bar>row to - row frm\<bar> = 2
             then Some \<lparr>row = (row frm + row to) div 2, col = col frm\<rparr> else None);
          notation = createMoveNotation piece frm to (capturedPiece \<noteq> None) isCastling isEnPassant;
          move = \<lparr>move_from = frm, move_to = to, move_piece = piece,
                  move_capturedPiece = capturedPiece, move_notation = notation,
                  move_timestamp = now, move_isCheck = None, move_isCheckmate = None,
                  move_isCastling = Some isCastling, move_isEnPassant = Some isEnPassant,
                  move_promotionPiece = None\<rparr>
      in \<lparr>board = newBoard,
          currentPlayer = opponent (currentPlayer gameState),
          status = Active,
          moveHistory = moveHistory gameState @ [move],
          capturedPieces = capturedPieces gameState,
          castlingRights = newCastlingRightsOf gameState piece frm,
          enPassantTarget = newEnPassantTarget,
          halfMoveClock = (if capturedPiece \<noteq> None \<or> type piece = Pawn then 0
                           else halfMoveClock gameState + 1),
          fullMoveNumber = (if currentPlayer gameState = Black then fullMoveNumber gameState + 1
                            else fullMoveNumber gameState)\<rparr>)"

text \<open>
  \<open>makeMove\<close> returns \<open>null\<close> (\<open>Inr None\<close>), the new state, or throws (\<open>Inl\<close>); the second
  component is the store after the call, whichever way it ends.
\<close>

definition makeMove ::
  "int \<Rightarrow> GameState \<Rightarrow> Position \<Rightarrow> Position \<Rightarrow> Heap \<Rightarrow> (error + GameState option) \<times> Heap" where
  "makeMove now gameState frm to h =
     (case getCell (board gameState) frm of
        Inl e \<Rightarrow> (Inl e, h)
      | Inr None \<Rightarrow> (Inr None, h)
      | Inr (Some piece) \<Rightarrow>
          if color piece \<noteq> currentPlayer gameState then (Inr None, h)
          else
            (case getPossibleMoves (board gameState) frm gameState of
               Inl e \<Rightarrow> (Inl e, h)
             | Inr possibleMoves \<Rightarrow>
                 if \<not> list_ex (\<lambda>move. positionsEqual move to) possibleMoves then (Inr None, h)
                 else
                   (case getCell (board gameState) to of
                      Inl e \<Rightarrow> (Inl e, h)
                    | Inr capturedPiece \<Rightarrow>
                        (case newBoardOf gameState piece frm to of
                           Inl e \<Rightarrow> (Inl e, h)
                         | Inr newBoard \<Rightarrow>
                             (let h' = pushCaptured gameState capturedPiece
                                         (isEnPassantMove gameState piece to) h;
                                  newGameState = newStateOf now gameState piece frm to
                                                   capturedPiece newBoard
                              in (case getGameStatus now newGameState of
                                    Inl e \<Rightarrow> (Inl e, h')
                                  | Inr st \<Rightarrow> (Inr (Some (newGameState\<lparr>status := st\<rparr>)), h')))))))"

section \<open>Well-formed states and the positions used below\<close>

text \<open>
  The board of the data model is an 8x8 grid and an en-passant target is a square of it.
  \<open>createInitialGameState\<close> and every accepted \<open>makeMove\<close> produce such states
  (\<open>makeMove_keeps_wf\<close> below).
\<close>

definition wf_board :: "Board \<Rightarrow> bool" where
  "wf_board b = (length b = 8 \<and> list_all (\<lambda>r. length r = 8) b)"

definition ep_valid :: "GameState \<Rightarrow> bool" where
  "ep_valid s = (case enPassantTarget s of None \<Rightarrow> True | Some t \<Rightarrow> isValidPosition t)"

definition wf_state :: "GameState \<Rightarrow> bool" where
  "wf_state s = (wf_board (board s) \<and> ep_valid s)"

text \<open>No cell of the board holds a king of colour \<open>c\<close>.\<close>

definition kingAbsent :: "Board \<Rightarrow> PieceColor \<Rightarrow> bool" where
  "kingAbsent b c =
     list_all (\<lambda>r. list_all (\<lambda>cell. cell \<noteq> Some \<lparr>type = King, color = c\<rparr>) r) b"

text \<open>What a reader of \<open>s.capturedPieces.white\<close> and \<open>s.capturedPieces.black\<close> sees in store \<open>h\<close>.\<close>

definition ledgers :: "Heap \<Rightarrow> GameState \<Rightarrow> ChessPiece list \<times> ChessPiece list" where
  "ledgers h s = (h ! white (capturedPieces s), h ! black (capturedPieces s))"

text \<open>Abbreviations for writing positions down.\<close>

definition sq :: "int \<Rightarrow> int \<Rightarrow> Position" where
  "sq r k = \<lparr>row = r, col = k\<rparr>"

definition Wh :: "PieceType \<Rightarrow> ChessPiece option" where
  "Wh t = Some \<lparr>type = t, color = White\<rparr>"

definition Bl :: "PieceType \<Rightarrow> ChessPiece option" where
  "Bl t = Some \<lparr>type = t, color = Black\<rparr>"

definition emptyRank :: "ChessPiece option list" where
  "emptyRank = [None, None, None, None, None, None, None, None]"

definition played :: "Position \<Rightarrow> Position \<Rightarrow> PieceType \<Rightarrow> PieceColor \<Rightarrow> string \<Rightarrow> bool \<Rightarrow> bool \<Rightarrow> Move" where
  "played frm to t c text castling enPassant =
     \<lparr>move_from = frm, move_to = to, move_piece = \<lparr>type = t, color = c\<rparr>,
      move_capturedPiece = None, move_notation = text, move_timestamp = 0,
      move_isCheck = None, move_isCheckmate = None, move_isCastling = Some castling,
      move_isEnPassant = Some enPassant, move_promotionPiece = None\<rparr>"

text \<open>A game: \<open>makeMove\<close> applied to each pair in turn, as long as the moves are accepted.\<close>

fun playMoves :: "int \<Rightarrow> (Position \<times> Position) list \<Rightarrow> GameState \<times> Heap \<Rightarrow> (error + GameState option) \<times> Heap" where
  "playMoves now [] (s, h) = (Inr (Some s), h)"
| "playMoves now ((frm, to) # rest) (s, h) =
     (case makeMove now s frm to h of
        (Inr (Some s'), h') \<Rightarrow> playMoves now rest (s', h')
      | r \<Rightarrow> r)"

text \<open>
  The game 1.e4 c6 2.e5 Qa5 3.Ke2 a6 4.Ke3 b6 5.Kf4 Ra7 6.Kg5 f5, in three parts, the states
  after each part, and the state after 7.exf6 e.p.
\<close>

definition firstMoves :: "(Position \<times> Position) list" where
  "firstMoves = [(sq 6 4, sq 4 4), (sq 1 2, sq 2 2), (sq 4 4, sq 3 4), (sq 0 3, sq 3 0)]"

definition kingWalk :: "(Position \<times> Position) list" where
  "kingWalk = [(sq 7 4, sq 6 4), (sq 1 0, sq 2 0), (sq 6 4, sq 5 4), (sq 1 1, sq 2 1)]"

definition doublePush :: "(Position \<times> Position) list" where
  "doublePush = [(sq 5 4, sq 4 5), (sq 0 0, sq 1 0), (sq 4 5, sq 3 6), (sq 1 5, sq 3 5)]"

definition afterPly4 :: GameState where
  "afterPly4 =
     \<lparr>board =
        [[Bl Rook, Bl Knight, Bl Bishop, None, Bl King, Bl Bishop, Bl Knight, Bl Rook],
         [Bl Pawn, Bl Pawn, None, Bl Pawn, Bl Pawn, Bl Pawn, Bl Pawn, Bl Pawn],
         [None, None, Bl Pawn, None, None, None, None, None],
         [Bl Queen, None, None, None, Wh Pawn, None, None, None],
         emptyRank, emptyRank,
         [Wh Pawn, Wh Pawn, Wh Pawn, Wh Pawn, None, Wh Pawn, Wh Pawn, Wh Pawn],
         [Wh Rook, Wh Knight, Wh Bishop, Wh Queen, Wh King, Wh Bishop, Wh Knight, Wh Rook]],
      currentPlayer = White, status = Active,
      moveHistory =
        [played (sq 6 4) (sq 4 4) Pawn White ''e4'' False False,
         played (sq 1 2) (sq 2 2) Pawn Black ''c6'' False False,
         played (sq 4 4) (sq 3 4) Pawn White ''e5'' False False,
         played (sq 0 3) (sq 3 0) Queen Black ''Qa5'' False False],
      capturedPieces = \<lparr>white = 0, black = 1\<rparr>,
      castlingRights =
        \<lparr>whiteKingSide = True, whiteQueenSide = True,
         blackKingSide = True, blackQueenSide = True\<rparr>,
      enPassantTarget = None, halfMoveClock = 1, fullMoveNumber = 3\<rparr>"

definition afterPly8 :: GameState where
  "afterPly8 =
     \<lparr>board =
        [[Bl Rook, Bl Knight, Bl Bishop, None, Bl King, Bl Bishop, Bl Knight, Bl Rook],
         [None, None, None, Bl Pawn, Bl Pawn, Bl Pawn, Bl Pawn, Bl Pawn],
         [Bl Pawn, Bl Pawn, Bl Pawn, None, None, None, None, None],
         [Bl Queen, None, None, None, Wh Pawn, None, None, None],
         emptyRank,
         [None, None, None, None, Wh King, None, None, None],
         [Wh Pawn, Wh Pawn, Wh Pawn, Wh Pawn, None, Wh Pawn, Wh Pawn, Wh Pawn],
         [Wh Rook, Wh Knight, Wh Bishop, Wh Queen, None, Wh Bishop, Wh Knight, Wh Rook]],
      currentPlayer = White, status = Active,
      moveHistory =
        moveHistory afterPly4 @
        [played (sq 7 4) (sq 6 4) King White ''Ke2'' False False,
         played (sq 1 0) (sq 2 0) Pawn Black ''a6'' False False,
         played (sq 6 4) (sq 5 4) King White ''Ke3'' False False,
         played (sq 1 1) (sq 2 1) Pawn Black ''b6'' False False],
      capturedPieces = \<lparr>white = 0, black = 1\<rparr>,
      castlingRights =
        \<lparr>whiteKingSide = False, whiteQueenSide = False,
         blackKingSide = True, blackQueenSide = True\<rparr>,
      enPassantTarget = None, halfMoveClock = 0, fullMoveNumber = 5\<rparr>"

definition afterPly12 :: GameState where
  "afterPly12 =
     \<lparr>board =
        [[None, Bl Knight, Bl Bishop, None, Bl King, Bl Bishop, Bl Knight, Bl Rook],
         [Bl Rook, None, None, Bl Pawn, Bl Pawn, None, Bl Pawn, Bl Pawn],
         [Bl Pawn, Bl Pawn, Bl Pawn, None, None, None, None, None],
         [Bl Queen, None, None, None, Wh Pawn, Bl Pawn, Wh King, None],
         emptyRank, emptyRank,
         [Wh Pawn, Wh Pawn, Wh Pawn, Wh Pawn, None, Wh Pawn, Wh Pawn, Wh Pawn],
         [Wh Rook, Wh Knight, Wh Bishop, Wh Queen, None, Wh Bishop, Wh Knight, Wh Rook]],
      currentPlayer = White, status = Active,
      moveHistory =
        moveHistory afterPly8 @
        [played (sq 5 4) (sq 4 5) King White ''Kf4'' False False,
         played (sq 0 0) (sq 1 0) Rook Black ''Ra7'' False False,
         played (sq 4 5) (sq 3 6) King White ''Kg5'' False False,
         played (sq 1 5) (sq 3 5) Pawn Black ''f5'' False False],
      capturedPieces = \<lparr>white = 0, black = 1\<rparr>,
      castlingRights =
        \<lparr>whiteKingSide = False, whiteQueenSide = False,
         blackKingSide = True, blackQueenSide = False\<rparr>,
      enPassantTarget = Some (sq 2 5), halfMoveClock = 0, fullMoveNumber = 7\<rparr>"

definition afterEnPassant :: GameState where
  "afterEnPassant =
     \<lparr>board =
        [[None, Bl Knight, Bl Bishop, None, Bl King, Bl Bishop, Bl Knight, Bl Rook],
         [Bl Rook, None, None, Bl Pawn, Bl Pawn, None, Bl Pawn, Bl Pawn],
         [Bl Pawn, Bl Pawn, Bl Pawn, None, None, Wh Pawn, None, None],
         [Bl Queen, None, None, None, None, None, Wh King, None],
         emptyRank, emptyRank,
         [Wh Pawn, Wh Pawn, Wh Pawn, Wh Pawn, None, Wh Pawn, Wh Pawn, Wh Pawn],
         [Wh Rook, Wh Knight, Wh Bishop, Wh Queen, None, Wh Bishop, Wh Knight, Wh Rook]],
      currentPlayer = Black, status = Active,
      moveHistory =
        moveHistory afterPly12 @
        [played (sq 3 4) (sq 2 5) Pawn White ''f6 e.p.'' False True],
      capturedPieces = \<lparr>white = 0, black = 1\<rparr>,
      castlingRights =
        \<lparr>whiteKingSide = False, whiteQueenSide = False,
         blackKingSide = True, blackQueenSide = False\<rparr>,
      enPassantTarget = None, halfMoveClock = 0, fullMoveNumber = 7\<rparr>"

text \<open>Three sparse positions.\<close>

definition rookEndgameBoard :: Board where
  "rookEndgameBoard =
     [[Bl Rook, None, None, None, Bl King, None, None, None],
      emptyRank, emptyRank, emptyRank, emptyRank, emptyRank, emptyRank,
      [None, None, None, None, Wh King, None, None, Wh Rook]]"

definition drawnState :: GameState where
  "drawnState =
     \<lparr>board = rookEndgameBoard,
      currentPlayer = White, status = Draw,
      moveHistory = [],
      capturedPieces = \<lparr>white = 0, black = 1\<rparr>,
      castlingRights =
        \<lparr>whiteKingSide = True, whiteQueenSide = False,
         blackKingSide = False, blackQueenSide = True\<rparr>,
      enPassantTarget = None, halfMoveClock = 50, fullMoveNumber = 40\<rparr>"

definition checkBoard :: Board where
  "checkBoard =
     [[None, None, None, Bl King, Bl Rook, None, None, None],
      emptyRank, emptyRank, emptyRank, emptyRank, emptyRank, emptyRank,
      [None, None, None, None, Wh King, None, None, Wh Rook]]"

definition checkState :: GameState where
  "checkState =
     \<lparr>board = checkBoard,
      currentPlayer = White, status = Check,
      moveHistory = [],
      capturedPieces = \<lparr>white = 0, black = 1\<rparr>,
      castlingRights =
        \<lparr>whiteKingSide = True, whiteQueenSide = False,
         blackKingSide = False, blackQueenSide = False\<rparr>,
      enPassantTarget = None, halfMoveClock = 50, fullMoveNumber = 40\<rparr>"

definition kinglessBoard :: Board where
  "kinglessBoard =
     [[None, None, None, None, Bl King, None, None, None],
      emptyRank, emptyRank, emptyRank, emptyRank, emptyRank, emptyRank,
      [None, None, None, None, None, None, None, Wh Rook]]"

definition afterCastling :: GameState where
  "afterCastling =
     \<lparr>board =
        [[Bl Rook, None, None, None, Bl King, None, None, None],
         emptyRank, emptyRank, emptyRank, emptyRank, emptyRank, emptyRank,
         [None, None, None, None, None, Wh Rook, Wh King, None]],
      currentPlayer = Black, status = Draw,
      moveHistory = [played (sq 7 4) (sq 7 6) King White ''O-O'' True False],
      capturedPieces = \<lparr>white = 0, black = 1\<rparr>,
      castlingRights =
        \<lparr>whiteKingSide = False, whiteQueenSide = False,
         blackKingSide = False, blackQueenSide = True\<rparr>,
      enPassantTarget = None, halfMoveClock = 51, fullMoveNumber = 40\<rparr>"


text \<open>
  A black pawn on e7 above a white king on e5, and a black pawn on g2 beside the squares
  of White's king-side castling; \<open>kingOnG1Board\<close> is the second board with the king moved
  to g1.
\<close>

definition pawnFrontBoard :: Board where
  "pawnFrontBoard =
     [[Bl King, None, None, None, None, None, None, None],
      [None, None, None, None, Bl Pawn, None, None, None],
      emptyRank,
      [None, None, None, None, Wh King, None, None, None],
      emptyRank, emptyRank, emptyRank, emptyRank]"

definition pawnFrontState :: GameState where
  "pawnFrontState =
     \<lparr>board = pawnFrontBoard,
      currentPlayer = White, status = Active,
      moveHistory = [],
      capturedPieces = \<lparr>white = 0, black = 1\<rparr>,
      castlingRights =
        \<lparr>whiteKingSide = False, whiteQueenSide = False,
         blackKingSide = False, blackQueenSide = False\<rparr>,
      enPassantTarget = None, halfMoveClock = 0, fullMoveNumber = 30\<rparr>"

definition castleBlockBoard :: Board where
  "castleBlockBoard =
     [[None, None, None, None, Bl King, None, None, None],
      emptyRank, emptyRank, emptyRank, emptyRank, emptyRank,
      [None, None, None, None, None, None, Bl Pawn, None],
      [None, None, None, None, Wh King, None, None, Wh Rook]]"

definition kingOnG1Board :: Board where
  "kingOnG1Board =
     [[None, None, None, None, Bl King, None, None, None],
      emptyRank, emptyRank, emptyRank, emptyRank, emptyRank,
      [None, None, None, None, None, None, Bl Pawn, None],
      [None, None, None, None, None, None, Wh King, Wh Rook]]"

definition kingSideOnly :: CastlingRights where
  "kingSideOnly = \<lparr>whiteKingSide = True, whiteQueenSide = False,
                    blackKingSide = False, blackQueenSide = False\<rparr>"

section \<open>Properties\<close>

subsection \<open>The engine stays on the grid\<close>

text \<open>
  On an 8x8 board every square the generators return is a square of the board, so the
  unchecked reads and writes of \<open>wouldBeInCheck\<close> and \<open>makeMove\<close> find their cells and
  none of the functions throws.
\<close>

lemma wf_board_row: "wf_board b \<Longrightarrow> 0 \<le> r \<Longrightarrow> r < 8 \<Longrightarrow> length (b ! nat r) = 8"
  by (simp add: wf_board_def list_all_length)

lemma getCell_valid:
  "wf_board b \<Longrightarrow> isValidPosition p \<Longrightarrow> getCell b p = Inr (cellP b p)"
  by (auto simp: getCell_def cellP_def isValidPosition_def wf_board_def)

lemma setCell_valid:
  assumes "wf_board b" "0 \<le> r" "r < 8" "0 \<le> c" "c < 8"
  shows "\<exists>b'. setCell b r c v = Inr b' \<and> wf_board b'"
proof -
  have len: "length (b ! nat r) = 8" using assms by (simp add: wf_board_row)
  have "wf_board (b[nat r := (b ! nat r)[nat c := v]])"
    using assms len by (auto simp: wf_board_def list_all_length nth_list_update)
  moreover have "nat r < 8" "nat c < 8" using assms by auto
  ultimately show ?thesis using assms len by (simp add: setCell_def wf_board_def)
qed

lemma setCell_wf:
  "setCell b r c v = Inr b' \<Longrightarrow> wf_board b \<Longrightarrow> wf_board b'"
  by (auto simp: setCell_def wf_board_def list_all_length nth_list_update split: if_splits)

lemma pawn_moves_valid:
  assumes "to \<in> set (getPawnMoves b frm c ep)"
    and "case ep of None \<Rightarrow> True | Some t \<Rightarrow> isValidPosition t"
  shows "isValidPosition to"
  using assms by (auto simp: getPawnMoves_def Let_def split: if_splits option.splits)

lemma slide_valid: "to \<in> set (slide b frm c rd cd is) \<Longrightarrow> isValidPosition to"
  by (induction "is") (auto simp: Let_def split: if_splits option.splits)

lemma rook_moves_valid: "to \<in> set (getRookMoves b frm c) \<Longrightarrow> isValidPosition to"
  by (auto simp: getRookMoves_def simp del: slide.simps dest: slide_valid)

lemma bishop_moves_valid: "to \<in> set (getBishopMoves b frm c) \<Longrightarrow> isValidPosition to"
  by (auto simp: getBishopMoves_def simp del: slide.simps dest: slide_valid)

lemma queen_moves_valid: "to \<in> set (getQueenMoves b frm c) \<Longrightarrow> isValidPosition to"
  by (auto simp: getQueenMoves_def dest: rook_moves_valid bishop_moves_valid)

lemma offsetMoves_valid: "to \<in> set (offsetMoves b frm c offs) \<Longrightarrow> isValidPosition to"
  by (auto simp: offsetMoves_def Let_def split: if_splits)

lemma knight_moves_valid: "to \<in> set (getKnightMoves b frm c) \<Longrightarrow> isValidPosition to"
  by (auto simp: getKnightMoves_def dest: offsetMoves_valid)

lemma king_moves_valid: "to \<in> set (getKingMoves b frm c cr) \<Longrightarrow> isValidPosition to"
  by (auto simp: getKingMoves.simps kingSteps_def isValidPosition_def dest: offsetMoves_valid split: if_splits)


lemma wouldBeInCheck_total:
  assumes "wf_board b" "isValidPosition frm" "isValidPosition to"
  shows "\<exists>r. wouldBeInCheck b frm to c = Inr r"
proof -
  from assms(3) have t: "0 \<le> row to" "row to < 8" "0 \<le> col to" "col to < 8"
    by (simp_all add: isValidPosition_def)
  from assms(2) have f: "0 \<le> row frm" "row frm < 8" "0 \<le> col frm" "col frm < 8"
    by (simp_all add: isValidPosition_def)
  obtain b1 where b1: "setCell b (row to) (col to) (cellP b frm) = Inr b1" "wf_board b1"
    using setCell_valid[OF assms(1) t] by blast
  obtain b2 where b2: "setCell b1 (row frm) (col frm) None = Inr b2"
    using setCell_valid[OF b1(2) f] by blast
  show ?thesis
    using getCell_valid[OF assms(1,2)] b1 b2
    by (auto simp: wouldBeInCheck_def split: option.splits)
qed

lemma filterE_total:
  assumes "\<And>x. x \<in> set xs \<Longrightarrow> \<exists>r. keep x = Inr r"
  shows "\<exists>ys. filterE keep xs = Inr ys \<and> set ys \<subseteq> set xs"
  using assms
proof (induction xs)
  case Nil
  then show ?case by simp
next
  case (Cons x xs)
  then obtain r where r: "keep x = Inr r" by auto
  from Cons obtain ys where ys: "filterE keep xs = Inr ys" "set ys \<subseteq> set xs" by auto
  show ?case using r ys by auto
qed

lemma pseudoMoves_valid:
  assumes "to \<in> set (pseudoMoves b frm piece s)" "ep_valid s"
  shows "isValidPosition to"
  using assms unfolding pseudoMoves_def ep_valid_def
  by (cases "type piece")
     (auto dest: pawn_moves_valid rook_moves_valid knight_moves_valid bishop_moves_valid
        queen_moves_valid king_moves_valid)

lemma getPossibleMoves_total:
  assumes "wf_board b" "ep_valid s" "isValidPosition frm"
  shows "\<exists>ms. getPossibleMoves b frm s = Inr ms \<and> (\<forall>to \<in> set ms. isValidPosition to)"
proof (cases "cellP b frm")
  case None
  then show ?thesis using getCell_valid[OF assms(1,3)] by (simp add: getPossibleMoves_def)
next
  case (Some piece)
  let ?keep = "\<lambda>to. bind (wouldBeInCheck b frm to (color piece)) (\<lambda>chk. Inr (\<not> chk))"
  have "\<exists>r. ?keep x = Inr r" if "x \<in> set (pseudoMoves b frm piece s)" for x
  proof -
    have "isValidPosition x" using pseudoMoves_valid[OF that assms(2)] .
    then obtain r where "wouldBeInCheck b frm x (color piece) = Inr r"
      using wouldBeInCheck_total[OF assms(1,3)] by blast
    then show ?thesis by simp
  qed
  from filterE_total[of "pseudoMoves b frm piece s" ?keep, OF this]
  obtain ys where ys: "filterE ?keep (pseudoMoves b frm piece s) = Inr ys"
    "set ys \<subseteq> set (pseudoMoves b frm piece s)" by blast
  have "\<forall>to \<in> set ys. isValidPosition to"
    using ys(2) pseudoMoves_valid[OF _ assms(2)] by blast
  then show ?thesis
    using Some ys(1) getCell_valid[OF assms(1,3)] by (simp add: getPossibleMoves_def)
qed

lemma squares_valid: "(r, k) \<in> set squares \<Longrightarrow> isValidPosition \<lparr>row = r, col = k\<rparr>"
  by (auto simp: squares_def indices_def isValidPosition_def)

lemma getAllPossibleMovesIn_total:
  assumes "wf_board b" "ep_valid s" "\<And>r k. (r, k) \<in> set sqs \<Longrightarrow> isValidPosition \<lparr>row = r, col = k\<rparr>"
  shows "\<exists>ms. getAllPossibleMovesIn now b c s sqs = Inr ms"
  using assms(3)
proof (induction sqs)
  case Nil
  then show ?case by simp
next
  case (Cons x sqs)
  obtain r k where x: "x = (r, k)" by (cases x)
  have v: "isValidPosition \<lparr>row = r, col = k\<rparr>" using Cons.prems x by simp
  obtain ms where ms: "getPossibleMoves b \<lparr>row = r, col = k\<rparr> s = Inr ms"
    using getPossibleMoves_total[OF assms(1,2) v] by blast
  obtain more where more: "getAllPossibleMovesIn now b c s sqs = Inr more"
    using Cons by auto
  show ?case using x ms more by (simp split: option.splits)
qed

lemma getAllPossibleMoves_total:
  assumes "wf_board b" "ep_valid s"
  shows "\<exists>ms. getAllPossibleMoves now b c s = Inr ms"
  unfolding getAllPossibleMoves_def
  using getAllPossibleMovesIn_total[OF assms] squares_valid by blast

lemma getGameStatus_total:
  assumes "wf_board (board s)" "ep_valid s"
  shows "\<exists>st. getGameStatus now s = Inr st"
proof -
  obtain ms where "getAllPossibleMoves now (board s) (currentPlayer s) s = Inr ms"
    using getAllPossibleMoves_total[OF assms] by blast
  then show ?thesis by (simp add: getGameStatus_def Let_def)
qed


lemma positionsEqual_iff: "positionsEqual (p::Position) q \<longleftrightarrow> p = q"
  by (auto simp: positionsEqual_def)

lemma list_ex_positionsEqual: "list_ex (\<lambda>move. positionsEqual move to) ms \<longleftrightarrow> to \<in> set ms"
  by (auto simp: list_ex_iff positionsEqual_iff)

lemma filterE_subset: "filterE keep xs = Inr ys \<Longrightarrow> set ys \<subseteq> set xs"
proof (induction xs arbitrary: ys)
  case Nil
  then show ?case by simp
next
  case (Cons x xs)
  from Cons.prems obtain k zs where k: "keep x = Inr k" and zs: "filterE keep xs = Inr zs"
    and ys: "ys = (if k then x # zs else zs)"
    by (cases "keep x"; cases "filterE keep xs") auto
  from Cons.IH[OF zs] ys show ?case by auto
qed

lemma getCell_Some_valid:
  assumes "wf_board b" "getCell b frm = Inr (Some p)"
  shows "isValidPosition frm \<and> cellP b frm = Some p"
proof -
  from assms(2) have c: "cellAt b (row frm) (col frm) = Some p"
    by (auto simp: getCell_def split: if_splits)
  then have r: "0 \<le> row frm" "nat (row frm) < length b" "0 \<le> col frm"
      "nat (col frm) < length (b ! nat (row frm))"
    by (auto simp: cellAt_def split: if_splits)
  then have "row frm < 8" using assms(1) by (simp add: wf_board_def)
  moreover then have "length (b ! nat (row frm)) = 8" using wf_board_row[OF assms(1) r(1)] by simp
  ultimately show ?thesis using r c by (auto simp: isValidPosition_def cellP_def)
qed

lemma getPossibleMoves_pseudo:
  assumes "getCell b frm = Inr (Some piece)" "getPossibleMoves b frm s = Inr ms" "to \<in> set ms"
  shows "to \<in> set (pseudoMoves b frm piece s)"
  using assms filterE_subset by (fastforce simp: getPossibleMoves_def)

lemma pawn_move_captureRow:
  assumes "to \<in> set (getPawnMoves b frm c ep)" "isValidPosition frm"
  shows "0 \<le> (if c = White then row to + 1 else row to - 1) \<and>
         (if c = White then row to + 1 else row to - 1) < 8"
  using assms
  by (auto simp: getPawnMoves_def Let_def isValidPosition_def positionsEqual_def
      split: if_splits option.splits)

lemma newBoardOf_total:
  assumes wf: "wf_board (board s)" and f: "isValidPosition frm" and t: "isValidPosition to"
    and pawn: "type piece = Pawn \<Longrightarrow> to \<in> set (getPawnMoves (board s) frm (currentPlayer s) ep)"
  shows "\<exists>nb. newBoardOf s piece frm to = Inr nb \<and> wf_board nb"
proof -
  from f have fr: "0 \<le> row frm" "row frm < 8" and fc: "0 \<le> col frm" "col frm < 8"
    by (simp_all add: isValidPosition_def)
  from t have tr: "0 \<le> row to" "row to < 8" and tc: "0 \<le> col to" "col to < 8"
    by (simp_all add: isValidPosition_def)
  let ?captureRow = "if currentPlayer s = White then row to + 1 else row to - 1"
  let ?ep = "if isEnPassantMove s piece to then setCell (board s) ?captureRow (col to) None
             else Inr (board s)"
  have "\<exists>b1. ?ep = Inr b1 \<and> wf_board b1"
  proof (cases "isEnPassantMove s piece to")
    case True
    then have "type piece = Pawn" by (simp add: isEnPassantMove_def)
    from pawn_move_captureRow[OF pawn[OF this] f]
    have "0 \<le> ?captureRow" "?captureRow < 8" by simp_all
    from setCell_valid[OF wf this tc] True show ?thesis by simp
  next
    case False
    then show ?thesis using wf by simp
  qed
  then obtain b1 where b1: "?ep = Inr b1" "wf_board b1" by blast
  let ?rookFromCol = "if col to > col frm then 7 else 0 :: int"
  let ?rookToCol = "if col to > col frm then 5 else 3 :: int"
  let ?castle = "if isCastlingMove piece frm to
      then bind (getCell b1 \<lparr>row = row frm, col = ?rookFromCol\<rparr>) (\<lambda>rook.
           bind (setCell b1 (row frm) ?rookToCol rook) (\<lambda>b.
             setCell b (row frm) ?rookFromCol None))
      else Inr b1"
  have "\<exists>b2. ?castle = Inr b2 \<and> wf_board b2"
  proof (cases "isCastlingMove piece frm to")
    case True
    have v: "isValidPosition \<lparr>row = row frm, col = ?rookFromCol\<rparr>"
      using fr by (simp add: isValidPosition_def)
    have rc: "0 \<le> ?rookToCol" "?rookToCol < 8" "0 \<le> ?rookFromCol" "?rookFromCol < 8"
      by simp_all
    obtain b where b: "setCell b1 (row frm) ?rookToCol
        (cellP b1 \<lparr>row = row frm, col = ?rookFromCol\<rparr>) = Inr b" "wf_board b"
      using setCell_valid[OF b1(2) fr rc(1,2)] by blast
    obtain b' where b': "setCell b (row frm) ?rookFromCol None = Inr b'" "wf_board b'"
      using setCell_valid[OF b(2) fr rc(3,4)] by blast
    show ?thesis using True getCell_valid[OF b1(2) v] b b' by simp
  next
    case False
    then show ?thesis using b1 by simp
  qed
  then obtain b2 where b2: "?castle = Inr b2" "wf_board b2" by blast
  obtain b3 where b3: "setCell b2 (row to) (col to) (Some piece) = Inr b3" "wf_board b3"
    using setCell_valid[OF b2(2) tr tc] by blast
  obtain b4 where b4: "setCell b3 (row frm) (col frm) None = Inr b4" "wf_board b4"
    using setCell_valid[OF b3(2) fr fc] by blast
  obtain b5 where b5: "setCell b4 (row to) (col to) (Some \<lparr>type = Queen, color = color piece\<rparr>) = Inr b5"
    "wf_board b5"
    using setCell_valid[OF b4(2) tr tc] by blast
  have "newBoardOf s piece frm to =
          (if type piece = Pawn \<and> (row to = 0 \<or> row to = 7) then Inr b5 else Inr b4)"
    unfolding newBoardOf_def Let_def using b1(1) b2(1) b3(1) b4(1) b5(1) by auto
  then show ?thesis using b4(2) b5(2) by simp
qed

lemma newStateOf_wf:
  assumes "wf_board nb" "isValidPosition frm" "isValidPosition to"
  shows "wf_state (newStateOf now s piece frm to cap nb)"
  using assms
  by (auto simp: wf_state_def ep_valid_def newStateOf_def Let_def isValidPosition_def)

lemma makeMove_accepts:
  assumes wf: "wf_state s"
    and piece: "getCell (board s) frm = Inr (Some piece)" "color piece = currentPlayer s"
    and ms: "getPossibleMoves (board s) frm s = Inr ms" "to \<in> set ms"
  shows "\<exists>s' h'. makeMove now s frm to h = (Inr (Some s'), h')"
proof -
  from wf have wb: "wf_board (board s)" and ep: "ep_valid s" by (simp_all add: wf_state_def)
  from getCell_Some_valid[OF wb piece(1)] have f: "isValidPosition frm" by simp
  have ps: "to \<in> set (pseudoMoves (board s) frm piece s)"
    using getPossibleMoves_pseudo[OF piece(1) ms] .
  then have t: "isValidPosition to" using pseudoMoves_valid ep by blast
  have pw: "type piece = Pawn \<Longrightarrow>
        to \<in> set (getPawnMoves (board s) frm (currentPlayer s) (enPassantTarget s))"
    using ps piece(2) by (simp add: pseudoMoves_def)
  have "\<exists>nb. newBoardOf s piece frm to = Inr nb \<and> wf_board nb"
    by (rule newBoardOf_total[OF wb f t]) (rule pw)
  then obtain nb where nb: "newBoardOf s piece frm to = Inr nb" "wf_board nb" by blast
  have "wf_state (newStateOf now s piece frm to (cellP (board s) to) nb)"
    using newStateOf_wf[OF nb(2) f t] .
  then obtain st where st: "getGameStatus now (newStateOf now s piece frm to (cellP (board s) to) nb) = Inr st"
    using getGameStatus_total by (auto simp: wf_state_def)
  show ?thesis
    unfolding makeMove_def
    using piece ms(1) ms(2) getCell_valid[OF wb t] nb(1) st
    by (simp add: list_ex_positionsEqual Let_def)
qed

lemma makeMove_accepted:
  assumes "makeMove now s frm to h = (Inr (Some s'), h')"
  shows "\<exists>piece ms cap nb st.
           getCell (board s) frm = Inr (Some piece) \<and>
           color piece = currentPlayer s \<and>
           getPossibleMoves (board s) frm s = Inr ms \<and>
           to \<in> set ms \<and>
           getCell (board s) to = Inr cap \<and>
           newBoardOf s piece frm to = Inr nb \<and>
           getGameStatus now (newStateOf now s piece frm to cap nb) = Inr st \<and>
           s' = (newStateOf now s piece frm to cap nb)\<lparr>status := st\<rparr> \<and>
           h' = pushCaptured s cap (isEnPassantMove s piece to) h"
  using assms unfolding makeMove_def list_ex_positionsEqual
  by (auto simp: Let_def split: sum.splits option.splits if_splits)

lemma createInitialGameState_wf: "wf_state (fst (createInitialGameState h))"
  by (simp add: createInitialGameState_def createInitialBoard_def wf_state_def wf_board_def
      ep_valid_def)

lemma makeMove_keeps_wf:
  assumes wf: "wf_state s" and mv: "makeMove now s frm to h = (Inr (Some s'), h')"
  shows "wf_state s'"
proof -
  from wf have wb: "wf_board (board s)" and ep: "ep_valid s" by (simp_all add: wf_state_def)
  from makeMove_accepted[OF mv] obtain piece ms cap nb st where
    piece: "getCell (board s) frm = Inr (Some piece)" "color piece = currentPlayer s"
    and ms: "getPossibleMoves (board s) frm s = Inr ms" "to \<in> set ms"
    and nb: "newBoardOf s piece frm to = Inr nb"
    and s': "s' = (newStateOf now s piece frm to cap nb)\<lparr>status := st\<rparr>"
    by blast
  from getCell_Some_valid[OF wb piece(1)] have f: "isValidPosition frm" by simp
  have ps: "to \<in> set (pseudoMoves (board s) frm piece s)"
    using getPossibleMoves_pseudo[OF piece(1) ms] .
  then have t: "isValidPosition to" using pseudoMoves_valid ep by blast
  have pw: "type piece = Pawn \<Longrightarrow>
        to \<in> set (getPawnMoves (board s) frm (currentPlayer s) (enPassantTarget s))"
    using ps piece(2) by (simp add: pseudoMoves_def)
  have "\<exists>nb. newBoardOf s piece frm to = Inr nb \<and> wf_board nb"
    by (rule newBoardOf_total[OF wb f t]) (rule pw)
  with nb have "wf_board nb" by auto
  from newStateOf_wf[OF this f t, of now s piece cap] show ?thesis
    unfolding s' by (simp add: wf_state_def ep_valid_def)
qed

subsection \<open>Coordinates\<close>

lemma int_0_7_cases:
  "0 \<le> (i::int) \<Longrightarrow> i < 8 \<Longrightarrow> i = 0 \<or> i = 1 \<or> i = 2 \<or> i = 3 \<or> i = 4 \<or> i = 5 \<or> i = 6 \<or> i = 7"
  by arith

lemma files_roundtrip:
  assumes "0 \<le> i" "i < 8"
  shows "strAt files i = Some (files ! nat i) \<and> indexOfFrom files (files ! nat i) 0 = i"
  using int_0_7_cases[OF assms] by (auto simp: strAt_def files_def)

lemma ranks_roundtrip:
  assumes "0 \<le> i" "i < 8"
  shows "strAt ranks i = Some (ranks ! nat i) \<and> indexOfFrom ranks (ranks ! nat i) 0 = i"
  using int_0_7_cases[OF assms] by (auto simp: strAt_def ranks_def)

text \<open>
  C8. For every square \<open>p\<close> of the board, \<open>positionToAlgebraic p\<close> is the two-character
  string made of the file letter at index \<open>col p\<close> of \<open>abcdefgh\<close> and the rank digit at
  index \<open>row p\<close> of \<open>87654321\<close>, and \<open>algebraicToPosition\<close> maps that string back to \<open>p\<close>.
\<close>

theorem algebraic_roundtrip:
  assumes "isValidPosition p"
  shows "positionToAlgebraic p = Some [files ! nat (col p), ranks ! nat (row p)] \<and>
         map_option algebraicToPosition (positionToAlgebraic p) = Some p"
proof -
  from assms have r: "0 \<le> row p" "row p < 8" and c: "0 \<le> col p" "col p < 8"
    by (simp_all add: isValidPosition_def)
  note f = files_roundtrip[OF c] and k = ranks_roundtrip[OF r]
  have alg: "positionToAlgebraic p = Some [files ! nat (col p), ranks ! nat (row p)]"
    using f k by (simp add: positionToAlgebraic_def)
  have "strAt [files ! nat (col p), ranks ! nat (row p)] 0 = strAt files (col p)"
       "strAt [files ! nat (col p), ranks ! nat (row p)] 1 = strAt ranks (row p)"
    using f k by (simp_all add: strAt_def)
  then have "algebraicToPosition [files ! nat (col p), ranks ! nat (row p)] = p"
    using f k by (simp add: algebraicToPosition_def)
  with alg show ?thesis by simp
qed

theorem algebraic_roundtrip_witness:
  "isValidPosition (sq 4 2) \<and>
   positionToAlgebraic (sq 4 2) = Some ''c4'' \<and>
   map_option algebraicToPosition (positionToAlgebraic (sq 4 2)) = Some (sq 4 2)"
proof -
  have v: "isValidPosition (sq 4 2)" by (simp add: isValidPosition_def sq_def)
  show ?thesis using v algebraic_roundtrip[OF v]
    by (simp add: files_def ranks_def sq_def positionToAlgebraic_def algebraicToPosition_def
        strAt_def)
qed

subsection \<open>Status classification\<close>

text \<open>
  C3, as amended. For every state whose half-move clock is at least 50, \<open>getGameStatus\<close>
  returns draw when the side to move has a legal move and is not in check. With no legal
  move it returns checkmate (in check) or stalemate (not in check), and in check with a
  legal move it returns check: the clock is tested after these.
\<close>

theorem status_when_clock_reaches_50:
  assumes "halfMoveClock s \<ge> 50"
  shows "getGameStatus now s =
           (case getAllPossibleMoves now (board s) (currentPlayer s) s of
              Inl e \<Rightarrow> Inl e
            | Inr ms \<Rightarrow>
                Inr (if ms = []
                     then (if isInCheck (board s) (currentPlayer s) then Checkmate else Stalemate)
                     else if isInCheck (board s) (currentPlayer s) then Check else Draw))"
  using assms by (simp add: getGameStatus_def Let_def split: sum.splits)

theorem status_when_clock_reaches_50_witness:
  "halfMoveClock drawnState \<ge> 50 \<and> getGameStatus 0 drawnState = Inr Draw"
proof -
  have h: "halfMoveClock drawnState \<ge> 50" by (simp add: drawnState_def)
  have e: "(case getAllPossibleMoves 0 (board drawnState) (currentPlayer drawnState) drawnState of
              Inl e \<Rightarrow> Inl e
            | Inr ms \<Rightarrow>
                Inr (if ms = []
                     then (if isInCheck (board drawnState) (currentPlayer drawnState)
                           then Checkmate else Stalemate)
                     else if isInCheck (board drawnState) (currentPlayer drawnState)
                          then Check else Draw)) = Inr Draw"
    by code_simp
  show ?thesis using h status_when_clock_reaches_50[OF h, of 0] e by simp
qed

text \<open>
  The claim as stated fails: in \<open>checkState\<close> the clock is 50, White is to move and is
  attacked by the rook on e8, and the status is check.
\<close>

theorem clock_50_in_check_counterexample:
  "halfMoveClock checkState \<ge> 50 \<and> getGameStatus 0 checkState = Inr Check"
  by code_simp

subsection \<open>A board without a king\<close>

lemma findKingIn_None:
  assumes "\<And>r k. cellAt b r k \<noteq> Some \<lparr>type = King, color = c\<rparr>"
  shows "findKingIn b c sqs = None"
proof (induction sqs)
  case Nil
  then show ?case by simp
next
  case (Cons x sqs)
  obtain r k where x: "x = (r, k)" by (cases x)
  show ?case
  proof (cases "cellAt b r k")
    case None
    then show ?thesis using Cons x by simp
  next
    case (Some p)
    with assms[of r k] have "\<not> (type p = King \<and> color p = c)" by auto
    then show ?thesis using Some Cons x by simp
  qed
qed

lemma kingAbsent_cellAt:
  assumes "kingAbsent b c"
  shows "cellAt b r k \<noteq> Some \<lparr>type = King, color = c\<rparr>"
proof (cases "0 \<le> r \<and> nat r < length b \<and> 0 \<le> k \<and> nat k < length (b ! nat r)")
  case True
  then have "b ! nat r \<in> set b" "b ! nat r ! nat k \<in> set (b ! nat r)" by simp_all
  with assms have "b ! nat r ! nat k \<noteq> Some \<lparr>type = King, color = c\<rparr>"
    by (auto simp: kingAbsent_def list_all_iff)
  then show ?thesis using True by (simp add: cellAt_def)
next
  case False
  then show ?thesis by (auto simp: cellAt_def)
qed

lemma kingAbsent_findKing: "kingAbsent b c \<Longrightarrow> findKing b c = None"
  unfolding findKing_def by (rule findKingIn_None) (rule kingAbsent_cellAt)

lemma kingAbsent_setCell:
  assumes "kingAbsent b c" "setCell b r k v = Inr b'" "v \<noteq> Some \<lparr>type = King, color = c\<rparr>"
  shows "kingAbsent b' c"
proof -
  let ?K = "Some \<lparr>type = King, color = c\<rparr>"
  from assms(2) have b': "b' = b[nat r := (b ! nat r)[nat k := v]]" and r: "nat r < length b"
    by (auto simp: setCell_def split: if_splits)
  from assms(1) have all: "\<And>rw. rw \<in> set b \<Longrightarrow> ?K \<notin> set rw"
    by (auto simp: kingAbsent_def list_all_iff)
  have old: "?K \<notin> set (b ! nat r)" using all[of "b ! nat r"] r by simp
  have new: "?K \<notin> set ((b ! nat r)[nat k := v])"
    using old assms(3) set_update_subset_insert[of "b ! nat r" "nat k" v] by auto
  have "?K \<notin> set rw" if "rw \<in> set b'" for rw
  proof -
    from that have "rw = (b ! nat r)[nat k := v] \<or> rw \<in> set b"
      unfolding b' using set_update_subset_insert[of b "nat r" "(b ! nat r)[nat k := v]"] by auto
    then show ?thesis using new all by auto
  qed
  then show ?thesis by (auto simp: kingAbsent_def list_all_iff)
qed

lemma kingAbsent_wouldBeInCheck:
  assumes wf: "wf_board b" and ka: "kingAbsent b c"
    and f: "isValidPosition frm" and t: "isValidPosition to"
  shows "wouldBeInCheck b frm to c = Inr True"
proof -
  from t have tr: "0 \<le> row to" "row to < 8" "0 \<le> col to" "col to < 8"
    by (simp_all add: isValidPosition_def)
  from f have fr: "0 \<le> row frm" "row frm < 8" "0 \<le> col frm" "col frm < 8"
    by (simp_all add: isValidPosition_def)
  have p: "cellP b frm \<noteq> Some \<lparr>type = King, color = c\<rparr>"
    using kingAbsent_cellAt[OF ka] by (simp add: cellP_def)
  obtain b1 where b1: "setCell b (row to) (col to) (cellP b frm) = Inr b1" "wf_board b1"
    using setCell_valid[OF wf tr] by blast
  obtain b2 where b2: "setCell b1 (row frm) (col frm) None = Inr b2"
    using setCell_valid[OF b1(2) fr] by blast
  have "kingAbsent b1 c" using kingAbsent_setCell[OF ka b1(1) p] .
  then have "kingAbsent b2 c" using kingAbsent_setCell[OF _ b2] by simp
  then have "findKing b2 c = None" by (rule kingAbsent_findKing)
  then show ?thesis
    using getCell_valid[OF wf f] b1(1) b2 by (simp add: wouldBeInCheck_def)
qed

lemma filterE_all_dropped:
  assumes "\<And>x. x \<in> set xs \<Longrightarrow> keep x = Inr False"
  shows "filterE keep xs = Inr []"
  using assms by (induction xs) simp_all

text \<open>
  C5, as amended. For every 8x8 board on which colour \<open>c\<close> has no king, \<open>isInCheck\<close>
  returns false for \<open>c\<close>; \<open>wouldBeInCheck\<close> returns true for \<open>c\<close> and every pair of squares
  (no king found is taken as check), so \<open>getPossibleMoves\<close> discards every candidate and
  returns the empty list for each piece of colour \<open>c\<close>. Neither scan throws.
\<close>

theorem missing_king_scans:
  assumes wf: "wf_board b" and ka: "kingAbsent b c"
  shows "isInCheck b c = False \<and>
         (\<forall>frm to. isValidPosition frm \<and> isValidPosition to \<longrightarrow>
                    wouldBeInCheck b frm to c = Inr True) \<and>
         (\<forall>frm piece s. cellP b frm = Some piece \<and> color piece = c \<and> isValidPosition frm \<and> ep_valid s \<longrightarrow>
                    getPossibleMoves b frm s = Inr [])"
proof (intro conjI allI impI)
  show "isInCheck b c = False"
    using kingAbsent_findKing[OF ka] by (simp add: isInCheck_def)
next
  fix frm to
  assume "isValidPosition frm \<and> isValidPosition to"
  then show "wouldBeInCheck b frm to c = Inr True"
    using kingAbsent_wouldBeInCheck[OF wf ka] by blast
next
  fix frm piece s
  assume a: "cellP b frm = Some piece \<and> color piece = c \<and> isValidPosition frm \<and> ep_valid s"
  then have f: "isValidPosition frm" and ep: "ep_valid s" by simp_all
  have "bind (wouldBeInCheck b frm x (color piece)) (\<lambda>chk. Inr (\<not> chk)) = Inr False"
    if "x \<in> set (pseudoMoves b frm piece s)" for x
    using kingAbsent_wouldBeInCheck[OF wf ka f pseudoMoves_valid[OF that ep]] a by simp
  from filterE_all_dropped[of "pseudoMoves b frm piece s"
      "\<lambda>to. bind (wouldBeInCheck b frm to (color piece)) (\<lambda>chk. Inr (\<not> chk))", OF this]
  show "getPossibleMoves b frm s = Inr []"
    using a getCell_valid[OF wf f] by (simp add: getPossibleMoves_def)
qed

theorem missing_king_scans_witness:
  "wf_board kinglessBoard \<and> kingAbsent kinglessBoard White \<and>
   isInCheck kinglessBoard White = False \<and>
   wouldBeInCheck kinglessBoard (sq 7 7) (sq 6 7) White = Inr True \<and>
   getPossibleMoves kinglessBoard (sq 7 7) drawnState = Inr []"
proof -
  have w: "wf_board kinglessBoard" by code_simp
  have k: "kingAbsent kinglessBoard White" by code_simp
  have v: "isValidPosition (sq 7 7)" "isValidPosition (sq 6 7)" "ep_valid drawnState"
    by code_simp+
  have p: "cellP kinglessBoard (sq 7 7) = Some \<lparr>type = Rook, color = White\<rparr>"
    "color \<lparr>type = Rook, color = White\<rparr> = White"
    by code_simp+
  from missing_king_scans[OF w k]
  have a: "isInCheck kinglessBoard White = False"
    and b: "\<forall>frm to. isValidPosition frm \<and> isValidPosition to \<longrightarrow>
              wouldBeInCheck kinglessBoard frm to White = Inr True"
    and c: "\<forall>frm piece s. cellP kinglessBoard frm = Some piece \<and> color piece = White \<and>
              isValidPosition frm \<and> ep_valid s \<longrightarrow> getPossibleMoves kinglessBoard frm s = Inr []"
    by blast+
  from b v have b': "wouldBeInCheck kinglessBoard (sq 7 7) (sq 6 7) White = Inr True" by blast
  from c p v have c': "getPossibleMoves kinglessBoard (sq 7 7) drawnState = Inr []" by blast
  from w k a b' c' show ?thesis by simp
qed

text \<open>
  The claim as stated fails: on \<open>kinglessBoard\<close> White has no king, the rook on h1 has the
  candidate h2, and \<open>wouldBeInCheck\<close> reports check for it, so it is discarded.
\<close>

theorem missing_king_filter_counterexample:
  "kingAbsent kinglessBoard White \<and>
   sq 6 7 \<in> set (pseudoMoves kinglessBoard (sq 7 7) \<lparr>type = Rook, color = White\<rparr> drawnState) \<and>
   wouldBeInCheck kinglessBoard (sq 7 7) (sq 6 7) White = Inr True \<and>
   getPossibleMoves kinglessBoard (sq 7 7) drawnState = Inr []"
  by code_simp

subsection \<open>Squares a pawn can push to count as attacked\<close>

lemma indices_mem: "0 \<le> i \<Longrightarrow> i < 8 \<Longrightarrow> i \<in> set indices"
  using int_0_7_cases[of i] by (auto simp: indices_def)

lemma set_squares: "set squares = set indices \<times> set indices"
  by (auto simp: squares_def)

lemma squares_mem: "isValidPosition p \<Longrightarrow> (row p, col p) \<in> set squares"
  by (simp add: set_squares indices_mem isValidPosition_def)

lemma pawn_push_attacks:
  assumes pawn: "isValidPosition p" "cellP b p = Some \<lparr>type = Pawn, color = c\<rparr>"
    and front: "isValidPosition \<lparr>row = row p + (if c = White then - 1 else 1), col = col p\<rparr>"
      "cellP b \<lparr>row = row p + (if c = White then - 1 else 1), col = col p\<rparr> = None"
  shows "isSquareAttacked b \<lparr>row = row p + (if c = White then - 1 else 1), col = col p\<rparr> c"
proof -
  let ?front = "\<lparr>row = row p + (if c = White then - 1 else 1), col = col p\<rparr>"
  have mem: "(row p, col p) \<in> set squares"
    using pawn(1) by (rule squares_mem)
  have rec: "\<lparr>row = row p, col = col p\<rparr> = p" by simp
  have "?front \<in> set (getPawnMoves b p c None)"
    using front by (auto simp: getPawnMoves_def Let_def)
  then have "?front \<in> set (getPossibleMovesWithoutCheckValidation b p)"
    using pawn(2) by (simp add: getPossibleMovesWithoutCheckValidation.simps)
  then have ex: "list_ex (\<lambda>move. positionsEqual move ?front)
      (getPossibleMovesWithoutCheckValidation b \<lparr>row = row p, col = col p\<rparr>)"
    by (simp only: list_ex_positionsEqual rec)
  have cell: "cellAt b (row p) (col p) = Some \<lparr>type = Pawn, color = c\<rparr>"
    using pawn(2) by (simp add: cellP_def)
  let ?P = "\<lambda>(r, k). case cellAt b r k of None \<Rightarrow> False
      | Some piece \<Rightarrow> color piece = c \<and>
          list_ex (\<lambda>move. positionsEqual move ?front)
            (getPossibleMovesWithoutCheckValidation b \<lparr>row = r, col = k\<rparr>)"
  have "?P (row p, col p)" using cell ex by simp
  with mem have "\<exists>x \<in> set squares. ?P x" by (rule rev_bexI)
  then show ?thesis
    by (simp only: isSquareAttacked.simps list_ex_iff)
qed

lemma kingSteps_near:
  "to \<in> set (kingSteps b frm c) \<Longrightarrow> \<bar>col to - col frm\<bar> \<le> 1"
  by (auto simp: kingSteps_def offsetMoves_def Let_def split: if_splits)

lemma white_castling_needs_safe_squares:
  assumes "isSquareAttacked b \<lparr>row = 7, col = k\<rparr> Black"
  shows "(k = 5 \<or> k = 6 \<longrightarrow>
            \<lparr>row = 7, col = 6\<rparr> \<notin> set (getKingMoves b \<lparr>row = 7, col = 4\<rparr> White rights)) \<and>
         (k = 2 \<or> k = 3 \<longrightarrow>
            \<lparr>row = 7, col = 2\<rparr> \<notin> set (getKingMoves b \<lparr>row = 7, col = 4\<rparr> White rights))"
  using assms kingSteps_near[of "\<lparr>row = 7, col = 6\<rparr>" b "\<lparr>row = 7, col = 4\<rparr>" White]
    kingSteps_near[of "\<lparr>row = 7, col = 2\<rparr>" b "\<lparr>row = 7, col = 4\<rparr>" White]
  by (auto simp: getKingMoves.simps)

lemma black_castling_needs_safe_squares:
  assumes "isSquareAttacked b \<lparr>row = 0, col = k\<rparr> White"
  shows "(k = 5 \<or> k = 6 \<longrightarrow>
            \<lparr>row = 0, col = 6\<rparr> \<notin> set (getKingMoves b \<lparr>row = 0, col = 4\<rparr> Black rights)) \<and>
         (k = 2 \<or> k = 3 \<longrightarrow>
            \<lparr>row = 0, col = 2\<rparr> \<notin> set (getKingMoves b \<lparr>row = 0, col = 4\<rparr> Black rights))"
  using assms kingSteps_near[of "\<lparr>row = 0, col = 6\<rparr>" b "\<lparr>row = 0, col = 4\<rparr>" Black]
    kingSteps_near[of "\<lparr>row = 0, col = 2\<rparr>" b "\<lparr>row = 0, col = 4\<rparr>" Black]
  by (auto simp: getKingMoves.simps)

lemma pawn_never_attacks_occupied_front:
  assumes "cellP b' p = Some \<lparr>type = Pawn, color = c\<rparr>"
    and "cellP b' \<lparr>row = row p + (if c = White then - 1 else 1), col = col p\<rparr> \<noteq> None"
  shows "\<lparr>row = row p + (if c = White then - 1 else 1), col = col p\<rparr>
           \<notin> set (getPossibleMovesWithoutCheckValidation b' p)"
  using assms
  by (auto simp: getPossibleMovesWithoutCheckValidation.simps getPawnMoves_def Let_def
      split: if_splits)

text \<open>
  C9, as amended. For every 8x8 board, every pawn of colour \<open>c\<close> on a square \<open>p\<close> of it, and
  the square one row ahead of \<open>p\<close> in the pawn's direction (row - 1 for White, row + 1 for
  Black) in the same column: when that square is on the board and empty,
  \<open>isSquareAttacked\<close> returns true for it and \<open>c\<close>, since the attack scan uses the pawn's
  whole pseudo-legal move set. This constrains the enemy's castling: when the square is
  one of f1, g1 (c1, d1; f8, g8; c8, d8), \<open>getKingMoves\<close> does not offer the castling that
  tests it. It does not constrain the enemy king's steps: on any board where the square is
  occupied, as it is when \<open>wouldBeInCheck\<close> scans with the king moved onto it, the pawn's
  moves do not contain the square.
\<close>

theorem pawn_push_square_attacked_for_castling_only:
  assumes wf: "wf_board b"
    and pawn: "isValidPosition p" "cellP b p = Some \<lparr>type = Pawn, color = c\<rparr>"
    and ahead: "ahead = \<lparr>row = row p + (if c = White then - 1 else 1), col = col p\<rparr>"
    and front: "isValidPosition ahead" "cellP b ahead = None"
  shows "isSquareAttacked b ahead c \<and>
         (\<forall>rights. row ahead = 7 \<and> (col ahead = 5 \<or> col ahead = 6) \<longrightarrow>
            \<lparr>row = 7, col = 6\<rparr> \<notin> set (getKingMoves b \<lparr>row = 7, col = 4\<rparr> White rights)) \<and>
         (\<forall>rights. row ahead = 7 \<and> (col ahead = 2 \<or> col ahead = 3) \<longrightarrow>
            \<lparr>row = 7, col = 2\<rparr> \<notin> set (getKingMoves b \<lparr>row = 7, col = 4\<rparr> White rights)) \<and>
         (\<forall>rights. row ahead = 0 \<and> (col ahead = 5 \<or> col ahead = 6) \<longrightarrow>
            \<lparr>row = 0, col = 6\<rparr> \<notin> set (getKingMoves b \<lparr>row = 0, col = 4\<rparr> Black rights)) \<and>
         (\<forall>rights. row ahead = 0 \<and> (col ahead = 2 \<or> col ahead = 3) \<longrightarrow>
            \<lparr>row = 0, col = 2\<rparr> \<notin> set (getKingMoves b \<lparr>row = 0, col = 4\<rparr> Black rights)) \<and>
         (\<forall>b'. cellP b' p = Some \<lparr>type = Pawn, color = c\<rparr> \<and> cellP b' ahead \<noteq> None \<longrightarrow>
            ahead \<notin> set (getPossibleMovesWithoutCheckValidation b' p))"
proof -
  have att: "isSquareAttacked b ahead c"
    unfolding ahead using pawn front by (intro pawn_push_attacks) (simp_all add: ahead)
  have rec: "\<lparr>row = row ahead, col = col ahead\<rparr> = ahead" by simp
  have black: "c = Black" if "row ahead = 7"
  proof (rule ccontr)
    assume "c \<noteq> Black"
    then have "c = White" by (cases c) simp_all
    with that ahead pawn(1) show False by (simp add: isValidPosition_def)
  qed
  have white: "c = White" if "row ahead = 0"
  proof (rule ccontr)
    assume "c \<noteq> White"
    with that ahead pawn(1) show False by (simp add: isValidPosition_def)
  qed
  have w: "isSquareAttacked b \<lparr>row = 7, col = col ahead\<rparr> Black" if "row ahead = 7"
    using att black[OF that] rec that by (metis)
  have k: "isSquareAttacked b \<lparr>row = 0, col = col ahead\<rparr> White" if "row ahead = 0"
    using att white[OF that] rec that by (metis)
  have occ: "ahead \<notin> set (getPossibleMovesWithoutCheckValidation b' p)"
    if "cellP b' p = Some \<lparr>type = Pawn, color = c\<rparr>" "cellP b' ahead \<noteq> None" for b'
    using pawn_never_attacks_occupied_front[of b' p c] that by (simp add: ahead)
  show ?thesis
    using att white_castling_needs_safe_squares[OF w] black_castling_needs_safe_squares[OF k] occ
    by blast
qed

theorem pawn_push_square_attacked_for_castling_only_witness:
  "wf_board castleBlockBoard \<and> isValidPosition (sq 6 6) \<and>
   cellP castleBlockBoard (sq 6 6) = Some \<lparr>type = Pawn, color = Black\<rparr> \<and>
   isValidPosition (sq 7 6) \<and> cellP castleBlockBoard (sq 7 6) = None \<and>
   isSquareAttacked castleBlockBoard (sq 7 6) Black \<and>
   sq 7 6 \<notin> set (getKingMoves castleBlockBoard (sq 7 4) White kingSideOnly) \<and>
   cellP kingOnG1Board (sq 6 6) = Some \<lparr>type = Pawn, color = Black\<rparr> \<and>
   cellP kingOnG1Board (sq 7 6) \<noteq> None \<and>
   sq 7 6 \<notin> set (getPossibleMovesWithoutCheckValidation kingOnG1Board (sq 6 6))"
proof -
  have w: "wf_board castleBlockBoard" by code_simp
  have p: "isValidPosition (sq 6 6)"
    "cellP castleBlockBoard (sq 6 6) = Some \<lparr>type = Pawn, color = Black\<rparr>"
    by code_simp+
  have e: "sq 7 6 = \<lparr>row = row (sq 6 6) + (if Black = White then - 1 else 1), col = col (sq 6 6)\<rparr>"
    by (simp add: sq_def)
  have f: "isValidPosition (sq 7 6)" "cellP castleBlockBoard (sq 7 6) = None"
    by code_simp+
  have g: "cellP kingOnG1Board (sq 6 6) = Some \<lparr>type = Pawn, color = Black\<rparr>"
    "cellP kingOnG1Board (sq 7 6) \<noteq> None"
    by code_simp+
  have r: "row (sq 7 6) = 7" "col (sq 7 6) = 6" "\<lparr>row = 7, col = 6\<rparr> = sq 7 6"
    "\<lparr>row = 7, col = 4\<rparr> = sq 7 4"
    by (simp_all add: sq_def)
  from pawn_push_square_attacked_for_castling_only[OF w p e f]
  have a: "isSquareAttacked castleBlockBoard (sq 7 6) Black"
    and c: "\<forall>rights. row (sq 7 6) = 7 \<and> (col (sq 7 6) = 5 \<or> col (sq 7 6) = 6) \<longrightarrow>
            \<lparr>row = 7, col = 6\<rparr> \<notin> set (getKingMoves castleBlockBoard \<lparr>row = 7, col = 4\<rparr> White rights)"
    and o: "\<forall>b'. cellP b' (sq 6 6) = Some \<lparr>type = Pawn, color = Black\<rparr> \<and> cellP b' (sq 7 6) \<noteq> None \<longrightarrow>
            sq 7 6 \<notin> set (getPossibleMovesWithoutCheckValidation b' (sq 6 6))"
    by blast+
  from c r have c': "sq 7 6 \<notin> set (getKingMoves castleBlockBoard (sq 7 4) White kingSideOnly)"
    by simp
  from o g have o': "sq 7 6 \<notin> set (getPossibleMovesWithoutCheckValidation kingOnG1Board (sq 6 6))"
    by blast
  from w p f a c' g o' show ?thesis by simp
qed

text \<open>
  The claim as stated fails for king steps: on \<open>pawnFrontBoard\<close> the black pawn on e7 has
  e6 empty ahead of it and \<open>isSquareAttacked\<close> reports e6 attacked by Black, yet
  \<open>getPossibleMoves\<close> offers e6 to the white king on e5.
\<close>

theorem pawn_push_does_not_stop_king_step_counterexample:
  "cellP pawnFrontBoard (sq 1 4) = Some \<lparr>type = Pawn, color = Black\<rparr> \<and>
   cellP pawnFrontBoard (sq 2 4) = None \<and>
   isSquareAttacked pawnFrontBoard (sq 2 4) Black \<and>
   cellP pawnFrontBoard (sq 3 4) = Some \<lparr>type = King, color = White\<rparr> \<and>
   getPossibleMoves pawnFrontBoard (sq 3 4) pawnFrontState =
     Inr [sq 2 4, sq 3 3, sq 3 5, sq 4 3, sq 4 4, sq 4 5] \<and>
   sq 2 4 \<in> set [sq 2 4, sq 3 3, sq 3 5, sq 4 3, sq 4 4, sq 4 5]"
  by code_simp

subsection \<open>Accepting and rejecting a move\<close>

lemma pm_status: "pseudoMoves b frm piece (s\<lparr>status := st\<rparr>) = pseudoMoves b frm piece s"
  by (simp add: pseudoMoves_def cong: PieceType.case_cong)

lemma gpm_status: "getPossibleMoves b frm (s\<lparr>status := st\<rparr>) = getPossibleMoves b frm s"
  by (simp add: getPossibleMoves_def pm_status cong: option.case_cong)

lemma ep_status:  "isEnPassantMove (s\<lparr>status := st\<rparr>) piece to = isEnPassantMove s piece to"
  by (simp add: isEnPassantMove_def)

lemma nb_status:  "newBoardOf (s\<lparr>status := st\<rparr>) piece frm to = newBoardOf s piece frm to"
  by (simp add: newBoardOf_def ep_status)

lemma pc_status:  "pushCaptured (s\<lparr>status := st\<rparr>) cap ep h = pushCaptured s cap ep h"
  by (simp add: pushCaptured_def cong: option.case_cong if_cong)

lemma cr_status: "newCastlingRightsOf (s\<lparr>status := st\<rparr>) piece frm = newCastlingRightsOf s piece frm"
  by (simp add: newCastlingRightsOf_def cong: if_cong)

lemma ns_status:  "newStateOf now (s\<lparr>status := st\<rparr>) piece frm to cap nb = newStateOf now s piece frm to cap nb"
  by (simp add: newStateOf_def cr_status ep_status)

lemma makeMove_status: "makeMove now (s\<lparr>status := st\<rparr>) frm to h = makeMove now s frm to h"
  unfolding makeMove_def by (simp add: gpm_status nb_status ep_status pc_status ns_status cong: sum.case_cong option.case_cong if_cong)

text \<open>
  C10. \<open>makeMove\<close> never reads the \<open>status\<close> of the state it is given: the call returns the
  same result whatever the status is set to. On every well-formed state, whatever its
  status, it accepts the move exactly when a piece of the current player is on \<open>from\<close>
  and \<open>to\<close> is among \<open>getPossibleMoves(board, from, state)\<close>.
\<close>

theorem makeMove_never_consults_status:
  assumes "wf_state s"
  shows "makeMove now (s\<lparr>status := st\<rparr>) frm to h = makeMove now s frm to h \<and>
         ((\<exists>s' h'. makeMove now s frm to h = (Inr (Some s'), h')) \<longleftrightarrow>
          (\<exists>piece ms. getCell (board s) frm = Inr (Some piece) \<and>
                       color piece = currentPlayer s \<and>
                       getPossibleMoves (board s) frm s = Inr ms \<and> to \<in> set ms))"
proof (intro conjI iffI)
  show "makeMove now (s\<lparr>status := st\<rparr>) frm to h = makeMove now s frm to h"
    by (rule makeMove_status)
next
  assume "\<exists>s' h'. makeMove now s frm to h = (Inr (Some s'), h')"
  then obtain s' h' where "makeMove now s frm to h = (Inr (Some s'), h')" by blast
  from makeMove_accepted[OF this]
  show "\<exists>piece ms. getCell (board s) frm = Inr (Some piece) \<and>
          color piece = currentPlayer s \<and>
          getPossibleMoves (board s) frm s = Inr ms \<and> to \<in> set ms"
    by blast
next
  assume "\<exists>piece ms. getCell (board s) frm = Inr (Some piece) \<and>
          color piece = currentPlayer s \<and>
          getPossibleMoves (board s) frm s = Inr ms \<and> to \<in> set ms"
  then obtain piece ms where "getCell (board s) frm = Inr (Some piece)"
    "color piece = currentPlayer s" "getPossibleMoves (board s) frm s = Inr ms" "to \<in> set ms"
    by blast
  from makeMove_accepts[OF assms this]
  show "\<exists>s' h'. makeMove now s frm to h = (Inr (Some s'), h')" .
qed

lemma drawnState_king_moves:
  "getCell (board drawnState) (sq 7 4) = Inr (Some \<lparr>type = King, color = White\<rparr>) \<and>
   getPossibleMoves (board drawnState) (sq 7 4) drawnState =
     Inr [sq 6 3, sq 6 4, sq 6 5, sq 7 3, sq 7 5, sq 7 6]"
  by code_simp

lemma drawnState_wf: "wf_state drawnState"
  by code_simp

theorem makeMove_never_consults_status_witness:
  "wf_state drawnState \<and> status drawnState = Draw \<and>
   makeMove 0 (drawnState\<lparr>status := Active\<rparr>) (sq 7 4) (sq 7 3) [[], []] =
     makeMove 0 drawnState (sq 7 4) (sq 7 3) [[], []] \<and>
   (\<exists>s' h'. makeMove 0 drawnState (sq 7 4) (sq 7 3) [[], []] = (Inr (Some s'), h'))"
proof -
  have st: "status drawnState = Draw" by (simp add: drawnState_def)
  have "getCell (board drawnState) (sq 7 4) = Inr (Some \<lparr>type = King, color = White\<rparr>) \<and>
        color \<lparr>type = King, color = White\<rparr> = currentPlayer drawnState \<and>
        getPossibleMoves (board drawnState) (sq 7 4) drawnState =
          Inr [sq 6 3, sq 6 4, sq 6 5, sq 7 3, sq 7 5, sq 7 6] \<and>
        sq 7 3 \<in> set [sq 6 3, sq 6 4, sq 6 5, sq 7 3, sq 7 5, sq 7 6]"
    using drawnState_king_moves by (simp add: drawnState_def)
  then have "\<exists>piece ms. getCell (board drawnState) (sq 7 4) = Inr (Some piece) \<and>
        color piece = currentPlayer drawnState \<and>
        getPossibleMoves (board drawnState) (sq 7 4) drawnState = Inr ms \<and> sq 7 3 \<in> set ms"
    by blast
  with makeMove_never_consults_status[OF drawnState_wf, of 0 Active "sq 7 4" "sq 7 3" "[[], []]"]
  show ?thesis using drawnState_wf st by simp
qed

text \<open>
  C4. For every well-formed state, every square \<open>from\<close> of the board and every \<open>to\<close>: when
  no piece of the current player is on \<open>from\<close>, or \<open>to\<close> is not among
  \<open>getPossibleMoves(board, from, state)\<close>, \<open>makeMove\<close> returns \<open>null\<close>, throws nothing, and
  leaves the store of the ledgers as it was.
\<close>

theorem makeMove_rejects_illegal:
  assumes wf: "wf_state s" and f: "isValidPosition frm"
    and bad: "(\<forall>piece. cellP (board s) frm = Some piece \<longrightarrow> color piece \<noteq> currentPlayer s) \<or>
              (\<exists>ms. getPossibleMoves (board s) frm s = Inr ms \<and> to \<notin> set ms)"
  shows "makeMove now s frm to h = (Inr None, h)"
proof -
  from wf have wb: "wf_board (board s)" by (simp add: wf_state_def)
  note g = getCell_valid[OF wb f]
  show ?thesis
  proof (cases "\<forall>piece. cellP (board s) frm = Some piece \<longrightarrow> color piece \<noteq> currentPlayer s")
    case True
    then show ?thesis unfolding makeMove_def using g
      by (cases "cellP (board s) frm") auto
  next
    case False
    with bad obtain ms where "getPossibleMoves (board s) frm s = Inr ms" "to \<notin> set ms" by blast
    then show ?thesis unfolding makeMove_def using g
      by (cases "cellP (board s) frm") (auto simp: list_ex_positionsEqual)
  qed
qed

theorem makeMove_rejects_illegal_witness:
  "wf_state drawnState \<and> isValidPosition (sq 7 4) \<and>
   getPossibleMoves (board drawnState) (sq 7 4) drawnState =
     Inr [sq 6 3, sq 6 4, sq 6 5, sq 7 3, sq 7 5, sq 7 6] \<and>
   sq 5 4 \<notin> set [sq 6 3, sq 6 4, sq 6 5, sq 7 3, sq 7 5, sq 7 6] \<and>
   makeMove 0 drawnState (sq 7 4) (sq 5 4) [[], []] = (Inr None, [[], []])"
proof -
  have v: "isValidPosition (sq 7 4)" by code_simp
  have m: "getPossibleMoves (board drawnState) (sq 7 4) drawnState =
     Inr [sq 6 3, sq 6 4, sq 6 5, sq 7 3, sq 7 5, sq 7 6]"
    using drawnState_king_moves by simp
  have n: "sq 5 4 \<notin> set [sq 6 3, sq 6 4, sq 6 5, sq 7 3, sq 7 5, sq 7 6]"
    by (simp add: sq_def)
  have "(\<forall>piece. cellP (board drawnState) (sq 7 4) = Some piece \<longrightarrow>
            color piece \<noteq> currentPlayer drawnState) \<or>
        (\<exists>ms. getPossibleMoves (board drawnState) (sq 7 4) drawnState = Inr ms \<and> sq 5 4 \<notin> set ms)"
    using m n by blast
  from makeMove_rejects_illegal[OF drawnState_wf v this, of 0 "[[], []]"] v m n
  show ?thesis using drawnState_wf by simp
qed

lemma makeMove_off_board_row:
  "length (board s) = 8 \<Longrightarrow> makeMove now s \<lparr>row = 8, col = k\<rparr> to h = (Inl TypeError, h)"
  by (simp add: makeMove_def getCell_def)

lemma newCastlingRightsOf_le:
  "(whiteKingSide (newCastlingRightsOf s piece frm) \<longrightarrow> whiteKingSide (castlingRights s)) \<and>
   (whiteQueenSide (newCastlingRightsOf s piece frm) \<longrightarrow> whiteQueenSide (castlingRights s)) \<and>
   (blackKingSide (newCastlingRightsOf s piece frm) \<longrightarrow> blackKingSide (castlingRights s)) \<and>
   (blackQueenSide (newCastlingRightsOf s piece frm) \<longrightarrow> blackQueenSide (castlingRights s))"
  by (simp add: newCastlingRightsOf_def Let_def)

lemma castlingRights_newStateOf:
  "castlingRights ((newStateOf now s piece frm to cap nb)\<lparr>status := st\<rparr>) =
     newCastlingRightsOf s piece frm"
  by (simp add: newStateOf_def Let_def)

text \<open>
  C7. For every state and every move that \<open>makeMove\<close> accepts, each of the four castling
  rights that holds in the new state held in the old state.
\<close>

theorem castling_rights_never_restored:
  assumes "makeMove now s frm to h = (Inr (Some s'), h')"
  shows "(whiteKingSide (castlingRights s') \<longrightarrow> whiteKingSide (castlingRights s)) \<and>
         (whiteQueenSide (castlingRights s') \<longrightarrow> whiteQueenSide (castlingRights s)) \<and>
         (blackKingSide (castlingRights s') \<longrightarrow> blackKingSide (castlingRights s)) \<and>
         (blackQueenSide (castlingRights s') \<longrightarrow> blackQueenSide (castlingRights s))"
proof -
  from makeMove_accepted[OF assms] obtain piece cap nb st where
    "s' = (newStateOf now s piece frm to cap nb)\<lparr>status := st\<rparr>" by blast
  then have "castlingRights s' = newCastlingRightsOf s piece frm"
    by (simp only: castlingRights_newStateOf)
  then show ?thesis using newCastlingRightsOf_le[of s piece frm] by simp
qed

lemma drawnState_castles:
  "makeMove 0 drawnState (sq 7 4) (sq 7 6) [[], []] = (Inr (Some afterCastling), [[], []])"
  by code_simp

theorem castling_rights_never_restored_witness:
  "makeMove 0 drawnState (sq 7 4) (sq 7 6) [[], []] = (Inr (Some afterCastling), [[], []]) \<and>
   whiteKingSide (castlingRights drawnState) \<and>
   \<not> whiteKingSide (castlingRights afterCastling) \<and>
   \<not> whiteQueenSide (castlingRights afterCastling) \<and>
   \<not> blackKingSide (castlingRights afterCastling) \<and>
   blackQueenSide (castlingRights afterCastling) \<and>
   blackQueenSide (castlingRights drawnState)"
  using drawnState_castles castling_rights_never_restored[OF drawnState_castles]
  by (simp add: drawnState_def afterCastling_def)

subsection \<open>An en-passant capture in a game from the initial position\<close>

lemma playMoves_append:
  "playMoves now (xs @ ys) (s, h) =
     (case playMoves now xs (s, h) of
        (Inr (Some s'), h') \<Rightarrow> playMoves now ys (s', h')
      | r \<Rightarrow> r)"
proof (induction xs arbitrary: s h)
  case Nil
  then show ?case by simp
next
  case (Cons x xs)
  obtain frm to where x: "x = (frm, to)" by (cases x)
  show ?case unfolding x
    by (simp add: Cons.IH split: prod.splits sum.splits option.splits)
qed

lemma play_firstMoves:
  "playMoves 0 firstMoves (createInitialGameState []) = (Inr (Some afterPly4), [[], []])"
  by code_simp

lemma play_kingWalk:
  "playMoves 0 kingWalk (afterPly4, [[], []]) = (Inr (Some afterPly8), [[], []])"
  by code_simp

lemma play_doublePush:
  "playMoves 0 doublePush (afterPly8, [[], []]) = (Inr (Some afterPly12), [[], []])"
  by code_simp

lemma play_game:
  "playMoves 0 (firstMoves @ kingWalk @ doublePush) (createInitialGameState []) =
     (Inr (Some afterPly12), [[], []])"
proof -
  obtain s0 h0 where i: "createInitialGameState [] = (s0, h0)"
    by (cases "createInitialGameState []")
  show ?thesis
    using play_firstMoves play_kingWalk play_doublePush
    unfolding i by (simp add: playMoves_append)
qed

lemma legal_before_capture:
  "getPossibleMoves (board afterPly12) (sq 3 4) afterPly12 = Inr [sq 2 4, sq 2 5]"
  by code_simp

lemma capture_en_passant:
  "makeMove 0 afterPly12 (sq 3 4) (sq 2 5) [[], []] =
     (Inr (Some afterEnPassant), [[], [\<lparr>type = Pawn, color = Black\<rparr>]])"
  by code_simp

lemma king_attacked_after_capture:
  "findKing (board afterEnPassant) White = Some (sq 3 6) \<and>
   isSquareAttacked (board afterEnPassant) (sq 3 6) Black \<and>
   isInCheck (board afterEnPassant) White"
  by code_simp

text \<open>
  C1 fails on the code. After 1.e4 c6 2.e5 Qa5 3.Ke2 a6 4.Ke3 b6 5.Kf4 Ra7 6.Kg5 f5, played
  from the initial state with every move accepted, \<open>getPossibleMoves\<close> offers the white
  pawn on e5 the en-passant capture on f6. \<open>makeMove\<close> accepts it and removes the black
  pawn from f5; the white king on g5 is then attacked by the black queen on a5 along the
  row the two pawns have left.
\<close>

theorem en_passant_capture_exposes_king:
  "playMoves 0 (firstMoves @ kingWalk @ doublePush) (createInitialGameState []) =
     (Inr (Some afterPly12), [[], []]) \<and>
   getPossibleMoves (board afterPly12) (sq 3 4) afterPly12 = Inr [sq 2 4, sq 2 5] \<and>
   makeMove 0 afterPly12 (sq 3 4) (sq 2 5) [[], []] =
     (Inr (Some afterEnPassant), [[], [\<lparr>type = Pawn, color = Black\<rparr>]]) \<and>
   findKing (board afterEnPassant) White = Some (sq 3 6) \<and>
   isSquareAttacked (board afterEnPassant) (sq 3 6) Black \<and>
   isInCheck (board afterEnPassant) White"
  using play_game legal_before_capture capture_en_passant king_attacked_after_capture
  by simp

text \<open>
  C6 fails on the code. The capture above is recorded with \<open>isEnPassant\<close> set and the
  notation \<open>f6 e.p.\<close>, without the origin file and the \<open>x\<close>: \<open>makeMove\<close> passes
  \<open>capturedPiece !== null\<close> as \<open>isCapture\<close>, and the destination of an en-passant capture
  is empty.
\<close>

theorem en_passant_notation_lacks_capture_mark:
  "makeMove 0 afterPly12 (sq 3 4) (sq 2 5) [[], []] =
     (Inr (Some afterEnPassant), [[], [\<lparr>type = Pawn, color = Black\<rparr>]]) \<and>
   move_isEnPassant (last (moveHistory afterEnPassant)) = Some True \<and>
   move_notation (last (moveHistory afterEnPassant)) = ''f6 e.p.'' \<and>
   move_notation (last (moveHistory afterEnPassant)) \<noteq> ''exf6 e.p.''"
  using capture_en_passant by (simp add: afterEnPassant_def played_def)

text \<open>
  C2 fails on the code. \<open>afterPly12\<close> is the state given to \<open>makeMove\<close>; before the call its
  two ledgers are empty, after the call its ledger of black pieces holds the captured
  pawn: the new state shares the ledger arrays with the old one and \<open>push\<close> extends them
  in place.
\<close>

theorem makeMove_changes_ledger_of_input_state:
  "ledgers [[], []] afterPly12 = ([], []) \<and>
   makeMove 0 afterPly12 (sq 3 4) (sq 2 5) [[], []] =
     (Inr (Some afterEnPassant), [[], [\<lparr>type = Pawn, color = Black\<rparr>]]) \<and>
   ledgers [[], [\<lparr>type = Pawn, color = Black\<rparr>]] afterPly12 =
     ([], [\<lparr>type = Pawn, color = Black\<rparr>])"
  using capture_en_passant by (simp add: ledgers_def afterPly12_def)

end
